theory Spec2Isabelle
  imports Complex_Main "HOL-Library.Sublist" "HOL-Library.Option_ord"
begin

section \<open>Scan history of the QR scanner application\<close>

text \<open>
  A shallow embedding of \<^verbatim>\<open>src/screens/ScanHistoryScreen.js\<close>: the scan records, the
  filter and search function \<^verbatim>\<open>filterScans\<close>, the classifier \<^verbatim>\<open>getQRType\<close>, and the
  asynchronous operations \<^verbatim>\<open>getDemoScans\<close>, \<^verbatim>\<open>fetchScanHistory\<close>, \<^verbatim>\<open>deleteScan\<close> and
  \<^verbatim>\<open>clearAllScans\<close> over the component state, the AsyncStorage key-value store and the
  Firestore collection \<^verbatim>\<open>scans\<close>.

  Conventions.
  \<^item> A JavaScript \<^verbatim>\<open>Date\<close> is its time value, the number of milliseconds since the epoch,
    an \<^typ>\<open>int\<close>. Comparing two dates with \<^verbatim>\<open>>=\<close> compares these numbers.
  \<^item> A JavaScript string is a \<^typ>\<open>string\<close>: the bytes of the UTF-8 encoding of its text. On
    well-formed texts \<^verbatim>\<open>startsWith\<close> and \<^verbatim>\<open>includes\<close>, which compare UTF-16 code units,
    agree with the prefix and the substring relation on these bytes. \<^verbatim>\<open>toLowerCase\<close>
    follows the Unicode tables of the JavaScript engine and is a parameter of the model.
  \<^item> A field that a record object may lack, or that may hold \<^verbatim>\<open>null\<close>, is an
    \<^typ>\<open>'a option\<close>.
\<close>

subsection \<open>Strings\<close>

text \<open>\<^verbatim>\<open>data.startsWith(p)\<close>\<close>

fun startsWith :: "string \<Rightarrow> string \<Rightarrow> bool" where
  "startsWith d [] = True"
| "startsWith [] (p # ps) = False"
| "startsWith (c # cs) (p # ps) = (c = p \<and> startsWith cs ps)"

text \<open>\<^verbatim>\<open>data.includes(s)\<close>: \<^verbatim>\<open>s\<close> starts at some position of \<^verbatim>\<open>data\<close>. (The name
  \<open>includes\<close> is reserved.)\<close>

fun includes_str :: "string \<Rightarrow> string \<Rightarrow> bool" where
  "includes_str [] s = (s = [])"
| "includes_str (c # cs) s = (startsWith (c # cs) s \<or> includes_str cs s)"

subsection \<open>Scan records\<close>

text \<open>
  The record objects held in the component state. The five demo records carry \<^verbatim>\<open>id\<close>,
  \<^verbatim>\<open>qrData\<close>, \<^verbatim>\<open>timestamp\<close>, \<^verbatim>\<open>location\<close> and \<^verbatim>\<open>type\<close>; a record built from a Firestore
  document carries \<^verbatim>\<open>id\<close> and the document's fields \<^verbatim>\<open>userId\<close>, \<^verbatim>\<open>userEmail\<close>, \<^verbatim>\<open>qrData\<close>,
  \<^verbatim>\<open>timestamp\<close> and \<^verbatim>\<open>location\<close>. The field \<^verbatim>\<open>id\<close> is named \<open>id_scan\<close> and the field
  \<^verbatim>\<open>type\<close> is named \<open>type_scan\<close> here.
\<close>

record scan =
  id_scan :: string
  userId :: "string option"
  userEmail :: "string option"
  qrData :: string
  timestamp :: int
  location :: "(real \<times> real) option"
  type_scan :: "string option"

subsection \<open>Filter and search: \<^verbatim>\<open>filterScans\<close>\<close>

text \<open>
  What one call reads from its environment.
  \<^item> \<open>now\<close> is the time value of \<^verbatim>\<open>new Date()\<close> and of \<^verbatim>\<open>Date.now()\<close>; the five clock readings
    in the array literal of \<^verbatim>\<open>getDemoScans\<close> are taken within the same millisecond.
  \<^item> \<open>LocalTZA_utc e t\<close> and \<open>LocalTZA_local e t\<close> are the offsets of local time from UTC, in
    milliseconds, that the time zone data of the engine give for the UTC instant \<open>t\<close> and
    for the local time value \<open>t\<close> (\<^verbatim>\<open>LocalTZA(t, true)\<close> and \<^verbatim>\<open>LocalTZA(t, false)\<close> of
    ECMAScript). A change of daylight saving time is a step of these functions.
  \<^item> \<open>toLowerCase e\<close> is \<^verbatim>\<open>String.prototype.toLowerCase\<close> of the engine.
  \<^item> \<open>fails\<close> tells which calls to AsyncStorage (by key) and to Firestore are rejected
    during this call; \<^verbatim>\<open>filterScans\<close> performs none.
\<close>

datatype io_op = GetItem string | SetItem string | RemoveItem string | GetDocs | DeleteDoc

record env =
  now :: int
  LocalTZA_utc :: "int \<Rightarrow> int"
  LocalTZA_local :: "int \<Rightarrow> int"
  toLowerCase :: "string \<Rightarrow> string"
  fails :: "io_op \<Rightarrow> bool"

definition day_ms :: int where
  "day_ms = 24 * 60 * 60 * 1000"

text \<open>\<^verbatim>\<open>LocalTime(t)\<close> and \<^verbatim>\<open>UTC(t)\<close> of ECMAScript.\<close>

definition LocalTime :: "env \<Rightarrow> int \<Rightarrow> int" where
  "LocalTime e t = t + LocalTZA_utc e t"

definition UTC :: "env \<Rightarrow> int \<Rightarrow> int" where
  "UTC e t = t - LocalTZA_local e t"

text \<open>
  \<^verbatim>\<open>Day(LocalTime(t))\<close>: the number of the local calendar day on which the instant \<open>t\<close>
  falls. \<^verbatim>\<open>getFullYear\<close>, \<^verbatim>\<open>getMonth\<close> and \<^verbatim>\<open>getDate\<close> of the date \<open>t\<close> name this day by its
  year, month and day of the month.
\<close>

definition local_day :: "env \<Rightarrow> int \<Rightarrow> int" where
  "local_day e t = LocalTime e t div day_ms"

text \<open>
  \<^verbatim>\<open>new Date(now.getFullYear(), now.getMonth(), now.getDate())\<close>: the constructor reads
  year, month and day as the local time 00:00 of the day they name, here the local day
  of \<open>now\<close>, and converts this local time value with \<^verbatim>\<open>UTC\<close>. (The clock of a device
  reads a year after 1970; the constructor would read a year from 0 to 99 as a year of
  the twentieth century.)
\<close>

definition local_midnight :: "env \<Rightarrow> int" where
  "local_midnight e = UTC e (local_day e (now e) * day_ms)"

text \<open>The \<^verbatim>\<open>switch\<close> of \<^verbatim>\<open>filterScans\<close>; \<open>None\<close> is \<^verbatim>\<open>cutoffDate = null\<close>.\<close>

definition cutoffDate :: "env \<Rightarrow> string \<Rightarrow> int option" where
  "cutoffDate e selectedFilter =
     (if selectedFilter = ''today'' then Some (local_midnight e)
      else if selectedFilter = ''week'' then Some (now e - 7 * 24 * 60 * 60 * 1000)
      else if selectedFilter = ''month'' then Some (now e - 30 * 24 * 60 * 60 * 1000)
      else None)"

text \<open>
  \<^verbatim>\<open>filterScans\<close> reads the state variables \<^verbatim>\<open>scans\<close>, \<^verbatim>\<open>selectedFilter\<close> and \<^verbatim>\<open>searchText\<close>
  and hands its result to \<^verbatim>\<open>setFilteredScans\<close>; here they are the arguments and the
  result. An empty \<^verbatim>\<open>searchText\<close> is falsy.
\<close>

definition filterScans :: "env \<Rightarrow> scan list \<Rightarrow> string \<Rightarrow> string \<Rightarrow> scan list" where
  "filterScans e scans selectedFilter searchText =
     (let filtered = scans;
          filtered =
            (if selectedFilter \<noteq> ''all'' then
               (case cutoffDate e selectedFilter of
                  Some cutoff \<Rightarrow> filter (\<lambda>scan. timestamp scan \<ge> cutoff) filtered
                | None \<Rightarrow> filtered)
             else filtered);
          filtered =
            (if searchText \<noteq> [] then
               filter (\<lambda>scan. includes_str (toLowerCase e (qrData scan))
                                           (toLowerCase e searchText))
                 filtered
             else filtered)
      in filtered)"

subsection \<open>Classifier: \<^verbatim>\<open>getQRType\<close>\<close>

text \<open>The icon is kept as the list of its Unicode code points.\<close>

record qr_type =
  type_qr :: string
  icon :: "nat list"
  color :: string

definition getQRType :: "string \<Rightarrow> qr_type" where
  "getQRType data =
     (if startsWith data ''http://'' \<or> startsWith data ''https://'' then
        \<lparr>type_qr = ''url'', icon = [0x1F310], color = ''#2196F3''\<rparr>
      else if startsWith data ''mailto:'' then
        \<lparr>type_qr = ''email'', icon = [0x1F4E7], color = ''#FF9800''\<rparr>
      else if startsWith data ''tel:'' then
        \<lparr>type_qr = ''phone'', icon = [0x1F4DE], color = ''#4CAF50''\<rparr>
      else if startsWith data ''WiFi:'' then
        \<lparr>type_qr = ''wifi'', icon = [0x1F4F6], color = ''#9C27B0''\<rparr>
      else if includes_str data ''Contact:'' \<or> includes_str data ''VCARD'' then
        \<lparr>type_qr = ''contact'', icon = [0x1F464], color = ''#FF5722''\<rparr>
      else
        \<lparr>type_qr = ''text'', icon = [0x1F4DD], color = ''#607D8B''\<rparr>)"

subsection \<open>Component state, stores and effects\<close>

text \<open>The authenticated user of \<^verbatim>\<open>useAuth()\<close>; \<^verbatim>\<open>null\<close> is \<open>None\<close>.\<close>

record user =
  uid :: string
  email :: string

text \<open>
  A document of the Firestore collection \<^verbatim>\<open>scans\<close>, as \<^verbatim>\<open>saveScanToDatabase\<close> writes it,
  with its document id. The timestamp is assigned by the server; \<open>None\<close> is a timestamp
  that reads as \<^verbatim>\<open>null\<close>.
\<close>

record doc =
  doc_id :: string
  doc_userId :: string
  doc_userEmail :: string
  doc_qrData :: string
  doc_timestamp :: "int option"
  doc_location :: "(real \<times> real) option"

text \<open>
  A text held by AsyncStorage. \<open>Records xs\<close> is the text \<^verbatim>\<open>JSON.stringify(xs)\<close> of an array
  of records, the only kind written under the keys \<^verbatim>\<open>demoScans\<close> and \<^verbatim>\<open>scanHistory\<close>;
  a date is written as its ISO text and \<^verbatim>\<open>new Date\<close> of that text is the date again.
  \<open>Other s\<close> is any other text \<open>s\<close> (such as the uid under \<^verbatim>\<open>userToken\<close>), on which
  \<^verbatim>\<open>JSON.parse(...).map(...)\<close> throws.
\<close>

datatype stored = Records "scan list" | Other string

datatype exn = StorageError | FirestoreError | ParseError

text \<open>
  The state: the React state variables \<^verbatim>\<open>scans\<close> and \<^verbatim>\<open>loading\<close>, the contents of
  AsyncStorage, the Firestore collection \<^verbatim>\<open>scans\<close>, and what has been shown with
  \<^verbatim>\<open>Alert.alert(title, message)\<close> and logged with \<^verbatim>\<open>console.error\<close>, oldest first.
\<close>

record world =
  scans :: "scan list"
  loading :: bool
  storage :: "string \<rightharpoonup> stored"
  remote :: "doc list"
  alerts :: "(string \<times> string) list"
  console :: "string list"

text \<open>
  An asynchronous function either returns a value or throws; in both cases the effects
  it had up to that point stay.
\<close>

datatype 'a outcome = Returns 'a world | Throws exn world

type_synonym 'a io = "world \<Rightarrow> 'a outcome"

definition return_io :: "'a \<Rightarrow> 'a io" where
  "return_io a w = Returns a w"

text \<open>Sequencing (\<^verbatim>\<open>await\<close> and \<^verbatim>\<open>;\<close>): a throw skips the rest.\<close>

definition bind_io :: "'a io \<Rightarrow> ('a \<Rightarrow> 'b io) \<Rightarrow> 'b io" where
  "bind_io m f w = (case m w of Returns a w' \<Rightarrow> f a w' | Throws x w' \<Rightarrow> Throws x w')"

text \<open>\<^verbatim>\<open>try { m } catch (error) { h error }\<close>\<close>

definition try_catch :: "'a io \<Rightarrow> (exn \<Rightarrow> 'a io) \<Rightarrow> 'a io" where
  "try_catch m h w = (case m w of Returns a w' \<Rightarrow> Returns a w' | Throws x w' \<Rightarrow> h x w')"

text \<open>\<^verbatim>\<open>try { m } finally { fin }\<close>: \<open>fin\<close> runs either way; what it throws wins.\<close>

definition try_finally :: "'a io \<Rightarrow> unit io \<Rightarrow> 'a io" where
  "try_finally m fin w =
     (case m w of
        Returns a w' \<Rightarrow>
          (case fin w' of Returns u w'' \<Rightarrow> Returns a w'' | Throws y w'' \<Rightarrow> Throws y w'')
      | Throws x w' \<Rightarrow>
          (case fin w' of Returns u w'' \<Rightarrow> Throws x w'' | Throws y w'' \<Rightarrow> Throws y w''))"

text \<open>The value of the state variable \<^verbatim>\<open>scans\<close> that the function closes over.\<close>

definition get_scans :: "scan list io" where
  "get_scans w = Returns (scans w) w"

definition setScans :: "scan list \<Rightarrow> unit io" where
  "setScans xs w = Returns () (w\<lparr>scans := xs\<rparr>)"

definition setLoading :: "bool \<Rightarrow> unit io" where
  "setLoading b w = Returns () (w\<lparr>loading := b\<rparr>)"

definition Alert_alert :: "string \<Rightarrow> string \<Rightarrow> unit io" where
  "Alert_alert title message w = Returns () (w\<lparr>alerts := alerts w @ [(title, message)]\<rparr>)"

definition console_error :: "string \<Rightarrow> unit io" where
  "console_error message w = Returns () (w\<lparr>console := console w @ [message]\<rparr>)"

definition AsyncStorage_getItem :: "env \<Rightarrow> string \<Rightarrow> stored option io" where
  "AsyncStorage_getItem e k w =
     (if fails e (GetItem k) then Throws StorageError w else Returns (storage w k) w)"

definition AsyncStorage_setItem :: "env \<Rightarrow> string \<Rightarrow> stored \<Rightarrow> unit io" where
  "AsyncStorage_setItem e k v w =
     (if fails e (SetItem k) then Throws StorageError w
      else Returns () (w\<lparr>storage := (storage w)(k \<mapsto> v)\<rparr>))"

definition AsyncStorage_removeItem :: "env \<Rightarrow> string \<Rightarrow> unit io" where
  "AsyncStorage_removeItem e k w =
     (if fails e (RemoveItem k) then Throws StorageError w
      else Returns () (w\<lparr>storage := (storage w)(k := None)\<rparr>))"

text \<open>A text is truthy unless it is \<^verbatim>\<open>null\<close> or empty.\<close>

fun truthy :: "stored option \<Rightarrow> bool" where
  "truthy None = False"
| "truthy (Some (Other s)) = (s \<noteq> [])"
| "truthy (Some (Records xs)) = True"

definition JSON_stringify :: "scan list \<Rightarrow> stored" where
  "JSON_stringify xs = Records xs"

text \<open>
  \<^verbatim>\<open>JSON.parse(text).map(scan => ({...scan, timestamp: new Date(scan.timestamp)}))\<close>
\<close>

definition JSON_parse_scans :: "stored option \<Rightarrow> scan list io" where
  "JSON_parse_scans text w =
     (case text of
        Some (Records xs) \<Rightarrow>
          Returns (map (\<lambda>scan. scan\<lparr>timestamp := timestamp scan\<rparr>) xs) w
      | _ \<Rightarrow> Throws ParseError w)"

text \<open>
  The query \<^verbatim>\<open>where('userId', '==', uid), orderBy('timestamp', 'desc')\<close> on the
  collection, and \<^verbatim>\<open>getDocs\<close> of it.
\<close>

definition query_scans :: "string \<Rightarrow> doc list \<Rightarrow> doc list" where
  "query_scans u docs = rev (sort_key doc_timestamp (filter (\<lambda>d. doc_userId d = u) docs))"

definition getDocs :: "env \<Rightarrow> string \<Rightarrow> doc list io" where
  "getDocs e u w =
     (if fails e GetDocs then Throws FirestoreError w else Returns (query_scans u (remote w)) w)"

text \<open>\<^verbatim>\<open>deleteDoc(doc(db, 'scans', id))\<close>\<close>

definition deleteDoc :: "env \<Rightarrow> string \<Rightarrow> unit io" where
  "deleteDoc e i w =
     (if fails e DeleteDoc then Throws FirestoreError w
      else Returns () (w\<lparr>remote := filter (\<lambda>d. doc_id d \<noteq> i) (remote w)\<rparr>))"

subsection \<open>Loading: \<^verbatim>\<open>getDemoScans\<close> and \<^verbatim>\<open>fetchScanHistory\<close>\<close>

text \<open>The array literal \<^verbatim>\<open>demoScans\<close> of \<^verbatim>\<open>getDemoScans\<close>.\<close>

definition demoScans_default :: "env \<Rightarrow> scan list" where
  "demoScans_default e =
     [\<lparr>id_scan = ''1'', userId = None, userEmail = None,
       qrData = ''https://expo.dev'',
       timestamp = now e - 86400000,
       location = Some (40.7128, - 74.0060), type_scan = Some ''url''\<rparr>,
      \<lparr>id_scan = ''2'', userId = None, userEmail = None,
       qrData = ''Hello World QR Code - This is a simple text QR code for testing'',
       timestamp = now e - 172800000,
       location = None, type_scan = Some ''text''\<rparr>,
      \<lparr>id_scan = ''3'', userId = None, userEmail = None,
       qrData = ''https://reactnative.dev/docs/getting-started'',
       timestamp = now e - 259200000,
       location = Some (37.7749, - 122.4194), type_scan = Some ''url''\<rparr>,
      \<lparr>id_scan = ''4'', userId = None, userEmail = None,
       qrData = ''Contact: John Doe'' @ [CHR 0x0A] @ ''Phone: +1-555-123-4567'' @ [CHR 0x0A]
                  @ ''Email: john@example.com'',
       timestamp = now e - 345600000,
       location = Some (34.0522, - 118.2437), type_scan = Some ''contact''\<rparr>,
      \<lparr>id_scan = ''5'', userId = None, userEmail = None,
       qrData = ''WiFi:T:WPA;S:MyNetwork;P:password123;H:false;;'',
       timestamp = now e - 432000000,
       location = None, type_scan = Some ''wifi''\<rparr>]"

text \<open>
  The first \<^verbatim>\<open>try\<close> of \<^verbatim>\<open>getDemoScans\<close> either returns from the function (\<open>Some\<close> of the
  parsed snapshot) or falls through (\<open>None\<close>), also after its \<^verbatim>\<open>catch\<close>.
\<close>

definition getDemoScans :: "env \<Rightarrow> scan list io" where
  "getDemoScans e =
     bind_io
       (try_catch
          (bind_io (AsyncStorage_getItem e ''demoScans'') (\<lambda>savedDemoScans.
             if truthy savedDemoScans then
               bind_io (JSON_parse_scans savedDemoScans) (\<lambda>parsedScans.
                 return_io (Some parsedScans))
             else return_io None))
          (\<lambda>error.
             bind_io (console_error ''Error loading demo scans:'') (\<lambda>_. return_io None)))
       (\<lambda>returned.
          case returned of
            Some parsedScans \<Rightarrow> return_io parsedScans
          | None \<Rightarrow>
              (let demoScans = demoScans_default e in
               bind_io
                 (try_catch
                    (AsyncStorage_setItem e ''demoScans'' (JSON_stringify demoScans))
                    (\<lambda>error. console_error ''Error saving demo scans:''))
                 (\<lambda>_. return_io demoScans)))"

text \<open>The record that \<^verbatim>\<open>fetchScanHistory\<close> builds from a document of the query snapshot.\<close>

definition scan_of_doc :: "env \<Rightarrow> doc \<Rightarrow> scan" where
  "scan_of_doc e d =
     \<lparr>id_scan = doc_id d, userId = Some (doc_userId d), userEmail = Some (doc_userEmail d),
      qrData = doc_qrData d,
      timestamp = (case doc_timestamp d of Some t \<Rightarrow> t | None \<Rightarrow> now e),
      location = doc_location d, type_scan = None\<rparr>"

text \<open>\<^verbatim>\<open>!user || user.uid === 'demo-user'\<close>\<close>

definition is_demo :: "user option \<Rightarrow> bool" where
  "is_demo usr = (case usr of None \<Rightarrow> True | Some u \<Rightarrow> uid u = ''demo-user'')"

definition fetchScanHistory :: "env \<Rightarrow> user option \<Rightarrow> unit io" where
  "fetchScanHistory e usr =
     try_finally
       (try_catch
          (bind_io (setLoading True) (\<lambda>_.
             case usr of
               None \<Rightarrow>
                 bind_io (getDemoScans e) (\<lambda>demoScans.
                 bind_io (setScans demoScans) (\<lambda>_. setLoading False))
             | Some u \<Rightarrow>
                 if uid u = ''demo-user'' then
                   bind_io (getDemoScans e) (\<lambda>demoScans.
                   bind_io (setScans demoScans) (\<lambda>_. setLoading False))
                 else
                   bind_io (getDocs e (uid u)) (\<lambda>querySnapshot.
                   let scanData = map (scan_of_doc e) querySnapshot in
                   bind_io (setScans scanData) (\<lambda>_.
                   AsyncStorage_setItem e ''scanHistory'' (JSON_stringify scanData)))))
          (\<lambda>error.
             bind_io (console_error ''Error fetching scan history:'') (\<lambda>_.
             try_catch
               (bind_io (AsyncStorage_getItem e ''scanHistory'') (\<lambda>localScans.
                  if truthy localScans then
                    bind_io (JSON_parse_scans localScans) (\<lambda>parsedScans. setScans parsedScans)
                  else return_io ()))
               (\<lambda>localError.
                  bind_io (console_error ''Error loading local scan history:'') (\<lambda>_.
                  Alert_alert ''Error'' ''Failed to load scan history'')))))
       (setLoading False)"

subsection \<open>Deleting: \<^verbatim>\<open>deleteScan\<close> and \<^verbatim>\<open>clearAllScans\<close>\<close>

text \<open>\<^verbatim>\<open>user && user.uid !== 'demo-user'\<close>\<close>

definition is_remote_user :: "user option \<Rightarrow> bool" where
  "is_remote_user usr = (case usr of None \<Rightarrow> False | Some u \<Rightarrow> uid u \<noteq> ''demo-user'')"

text \<open>
  The value that the promise of an asynchronous function resolves to; it is
  \<^verbatim>\<open>undefined\<close> when the body ends without a \<^verbatim>\<open>return\<close> statement, as that of
  \<^verbatim>\<open>deleteScan\<close> does on each of its paths.
\<close>

datatype js_value = Undefined | Boolean bool

definition deleteScan :: "env \<Rightarrow> user option \<Rightarrow> scan \<Rightarrow> js_value io" where
  "deleteScan e usr scan =
     bind_io get_scans (\<lambda>scans.
     bind_io
       (try_catch
         (bind_io
            (if is_remote_user usr then deleteDoc e (id_scan scan)
             else
               (let updatedDemoScans = filter (\<lambda>s. id_scan s \<noteq> id_scan scan) scans in
                AsyncStorage_setItem e ''demoScans'' (JSON_stringify updatedDemoScans)))
            (\<lambda>_.
               let updatedScans = filter (\<lambda>s. id_scan s \<noteq> id_scan scan) scans in
               bind_io (setScans updatedScans) (\<lambda>_.
               Alert_alert ''Success'' ''Scan deleted successfully'')))
         (\<lambda>error.
            bind_io (console_error ''Error deleting scan:'') (\<lambda>_.
            Alert_alert ''Error'' ''Failed to delete scan'')))
       (\<lambda>_. return_io Undefined))"

text \<open>
  \<^verbatim>\<open>clearAllScans\<close> shows a dialog with the buttons Cancel and Clear All; the work is in
  the \<^verbatim>\<open>onPress\<close> handler of Clear All. The branch for a user who is not the demo user
  holds two comments and no statement.
\<close>

datatype button = Cancel | ClearAll

definition clearAllScans :: "env \<Rightarrow> user option \<Rightarrow> button \<Rightarrow> unit io" where
  "clearAllScans e usr pressed =
     (case pressed of
        Cancel \<Rightarrow> return_io ()
      | ClearAll \<Rightarrow>
          try_catch
            (bind_io (if is_remote_user usr then return_io () else return_io ()) (\<lambda>_.
             bind_io (AsyncStorage_removeItem e ''demoScans'') (\<lambda>_.
             bind_io (setScans []) (\<lambda>_.
             Alert_alert ''Success'' ''All scans cleared''))))
            (\<lambda>error. Alert_alert ''Error'' ''Failed to clear scans''))"

subsection \<open>Lowercasing of ASCII texts\<close>

text \<open>
  On a text of ASCII characters only, the Unicode tables make \<^verbatim>\<open>toLowerCase\<close> replace each
  capital letter A to Z by its small letter and leave every other character alone.
\<close>

definition upper_letters :: string where
  "upper_letters = ''ABCDEFGHIJKLMNOPQRSTUVWXYZ''"

definition lower_letters :: string where
  "lower_letters = ''abcdefghijklmnopqrstuvwxyz''"

definition lower_char :: "char \<Rightarrow> char" where
  "lower_char c =
     (case map_of (zip upper_letters lower_letters) c of Some l \<Rightarrow> l | None \<Rightarrow> c)"

definition toLowerCase_ascii :: "string \<Rightarrow> string" where
  "toLowerCase_ascii s = map lower_char s"

text \<open>A text of ASCII characters only: no byte has its highest bit set.\<close>

definition ascii_text :: "string \<Rightarrow> bool" where
  "ascii_text s = list_all (\<lambda>c. \<not> digit7 c) s"

text \<open>The engine lowercases ASCII texts as the Unicode tables say.\<close>

definition engine_lowers_ascii :: "env \<Rightarrow> bool" where
  "engine_lowers_ascii e = (\<forall>s. ascii_text s \<longrightarrow> toLowerCase e s = toLowerCase_ascii s)"

subsection \<open>Notions of the specification\<close>

text \<open>
  The definitions of this subsection follow the words of the specification, not the
  code; the theorems below compare the code with them.
\<close>

text \<open>Two characters are the same up to case: equal, or the capital and the small form
  of one letter A to Z.\<close>

definition same_letter :: "char \<Rightarrow> char \<Rightarrow> bool" where
  "same_letter a b =
     (a = b \<or> (a, b) \<in> set (zip upper_letters lower_letters)
            \<or> (b, a) \<in> set (zip upper_letters lower_letters))"

text \<open>The text \<open>s\<close> occurs in \<open>d\<close> as a substring, up to the case of its letters A to Z.\<close>

definition occurs_ignoring_case :: "string \<Rightarrow> string \<Rightarrow> bool" where
  "occurs_ignoring_case s d = (\<exists>ps u ss. d = ps @ u @ ss \<and> list_all2 same_letter u s)"

text \<open>The search predicate: an empty search text matches every record.\<close>

definition search_matches :: "string \<Rightarrow> scan \<Rightarrow> bool" where
  "search_matches searchText scan =
     (searchText = [] \<or> occurs_ignoring_case searchText (qrData scan))"

text \<open>
  Local midnight of the local calendar day number \<open>d\<close>: the instant for which the time
  zone data give the local time 00:00 of that day.
\<close>

definition start_of_local_day :: "env \<Rightarrow> int \<Rightarrow> int" where
  "start_of_local_day e d = d * day_ms - LocalTZA_local e (d * day_ms)"

text \<open>
  The time predicate: \<^verbatim>\<open>today\<close> keeps the instants from local midnight of the current day
  on, \<^verbatim>\<open>week\<close> those within the last 7 times 24 hours, \<^verbatim>\<open>month\<close> those within the last
  30 times 24 hours, \<^verbatim>\<open>all\<close> everything.
\<close>

definition in_time_window :: "env \<Rightarrow> string \<Rightarrow> int \<Rightarrow> bool" where
  "in_time_window e timeFilter t =
     (if timeFilter = ''today'' then start_of_local_day e (local_day e (now e)) \<le> t
      else if timeFilter = ''week'' then now e - t \<le> 7 * day_ms
      else if timeFilter = ''month'' then now e - t \<le> 30 * day_ms
      else True)"

text \<open>The instant \<open>t\<close> falls on the current local calendar day.\<close>

definition on_current_day :: "env \<Rightarrow> int \<Rightarrow> bool" where
  "on_current_day e t = (local_day e t = local_day e (now e))"

text \<open>
  Two properties of a time zone. Local dates never run backwards: a later instant does
  not fall on an earlier local day. And local midnight of day \<open>d\<close> is where that day
  begins: it falls on day \<open>d\<close>, and the millisecond before it on an earlier day.
\<close>

definition zone_dates_monotone :: "env \<Rightarrow> bool" where
  "zone_dates_monotone e = (\<forall>t t'. t \<le> t' \<longrightarrow> local_day e t \<le> local_day e t')"

definition zone_day_start :: "env \<Rightarrow> int \<Rightarrow> bool" where
  "zone_day_start e d =
     (local_day e (start_of_local_day e d) = d \<and> local_day e (start_of_local_day e d - 1) < d)"

text \<open>The ordered rule list of the classifier, on prefixes and substrings.\<close>

definition classify_rules :: "string \<Rightarrow> string" where
  "classify_rules d =
     (if prefix ''http://'' d \<or> prefix ''https://'' d then ''url''
      else if prefix ''mailto:'' d then ''email''
      else if prefix ''tel:'' d then ''phone''
      else if prefix ''WiFi:'' d then ''wifi''
      else if sublist ''Contact:'' d \<or> sublist ''VCARD'' d then ''contact''
      else ''text'')"

subsection \<open>Observations and example inputs\<close>

text \<open>
  The state in which a call ends, whether it ended by returning, and the value it
  returned.
\<close>

fun final :: "'a outcome \<Rightarrow> world" where
  "final (Returns a w) = w"
| "final (Throws x w) = w"

fun returned :: "'a outcome \<Rightarrow> bool" where
  "returned (Returns a w) = True"
| "returned (Throws x w) = False"

fun returned_value :: "'a outcome \<Rightarrow> 'a option" where
  "returned_value (Returns a w) = Some a"
| "returned_value (Throws x w) = None"

text \<open>
  An environment in which no call fails: 14 November 2023, 22:13:20 UTC, in a zone one
  hour east of UTC all year. Its \<open>toLowerCase\<close> is that of the engine on ASCII texts, the
  only texts that the examples lowercase in this environment and in the next three.
\<close>

definition env_ok :: env where
  "env_ok =
     \<lparr>now = 1700000000000, LocalTZA_utc = (\<lambda>t. 3600000), LocalTZA_local = (\<lambda>t. 3600000),
      toLowerCase = toLowerCase_ascii, fails = (\<lambda>op. False)\<rparr>"

text \<open>A record dated two days after \<open>now env_ok\<close>.\<close>

definition scan_later :: scan where
  "scan_later =
     \<lparr>id_scan = ''abc'', userId = Some ''u1'', userEmail = Some ''u1@example.com'',
      qrData = ''tel:+15551234567'', timestamp = 1700172800000,
      location = None, type_scan = None\<rparr>"

text \<open>A record dated one hour before \<open>now env_ok\<close>, on the same local day.\<close>

definition scan_recent :: scan where
  "scan_recent =
     \<lparr>id_scan = ''xyz'', userId = Some ''u1'', userEmail = Some ''u1@example.com'',
      qrData = ''mailto:someone@example.com'', timestamp = 1699996400000,
      location = Some (48.1372, 11.5756), type_scan = None\<rparr>"

text \<open>The environment three and a half days after \<open>env_ok\<close>.\<close>

definition env_later :: env where
  "env_later = env_ok\<lparr>now := 1700302400000\<rparr>"

text \<open>An environment at the instant of \<open>env_ok\<close> in which exactly the calls \<open>ops\<close> are rejected.\<close>

definition env_failing :: "io_op list \<Rightarrow> env" where
  "env_failing ops = env_ok\<lparr>fails := (\<lambda>op. op \<in> set ops)\<rparr>"

text \<open>
  Berlin on 29 October 2023 at 23:30 local time. On that day daylight saving time ended:
  at 01:00 UTC the clocks went from 03:00 back to 02:00, the offset from two hours to
  one, and the local day lasted 25 hours. Local midnight was 28 October, 22:00 UTC.
\<close>

definition env_berlin :: env where
  "env_berlin =
     \<lparr>now = 1698618600000,
      LocalTZA_utc = (\<lambda>t. if t < 1698541200000 then 7200000 else 3600000),
      LocalTZA_local = (\<lambda>t. if t < 1698548400000 then 7200000 else 3600000),
      toLowerCase = toLowerCase_ascii, fails = (\<lambda>op. False)\<rparr>"

text \<open>
  Two records of that day in Berlin: one scanned at 00:26:40 local time, in the first
  hour of the day, and one scanned a millisecond before local midnight, the day before.
\<close>

definition scan_berlin_night :: scan where
  "scan_berlin_night =
     \<lparr>id_scan = ''n1'', userId = Some ''u1'', userEmail = Some ''u1@example.com'',
      qrData = ''https://example.com'', timestamp = 1698532000000,
      location = None, type_scan = None\<rparr>"

definition scan_berlin_eve :: scan where
  "scan_berlin_eve =
     \<lparr>id_scan = ''n0'', userId = Some ''u1'', userEmail = Some ''u1@example.com'',
      qrData = ''plain text'', timestamp = 1698530399999,
      location = None, type_scan = None\<rparr>"

text \<open>
  Greek texts in UTF-8: the word \<^verbatim>\<open>U+039F U+0394 U+039F U+03A3\<close> in capitals, which the
  engine lowercases to \<^verbatim>\<open>U+03BF U+03B4 U+03BF U+03C2\<close> with the final form of the small
  sigma, and the capital sigma \<^verbatim>\<open>U+03A3\<close> alone, which it lowercases to the small sigma
  \<^verbatim>\<open>U+03C3\<close>.
\<close>

definition text_odos :: string where
  "text_odos = [CHR 0xCE, CHR 0x9F, CHR 0xCE, CHR 0x94, CHR 0xCE, CHR 0x9F, CHR 0xCE, CHR 0xA3]"

definition text_odos_lower :: string where
  "text_odos_lower =
     [CHR 0xCE, CHR 0xBF, CHR 0xCE, CHR 0xB4, CHR 0xCE, CHR 0xBF, CHR 0xCF, CHR 0x82]"

definition text_sigma :: string where
  "text_sigma = [CHR 0xCE, CHR 0xA3]"

definition text_sigma_lower :: string where
  "text_sigma_lower = [CHR 0xCF, CHR 0x83]"

text \<open>
  A French text in UTF-8, \<^verbatim>\<open>CAF\<close>, \<^verbatim>\<open>U+00C9\<close>, \<^verbatim>\<open> MENU\<close>, which the engine lowercases to
  \<^verbatim>\<open>caf\<close>, \<^verbatim>\<open>U+00E9\<close>, \<^verbatim>\<open> menu\<close>, and the small letter \<^verbatim>\<open>U+00E9\<close> alone, which lowercasing
  leaves as it is.
\<close>

definition text_cafe :: string where
  "text_cafe = ''CAF'' @ [CHR 0xC3, CHR 0x89] @ '' MENU''"

definition text_cafe_lower :: string where
  "text_cafe_lower = ''caf'' @ [CHR 0xC3, CHR 0xA9] @ '' menu''"

definition text_e_acute :: string where
  "text_e_acute = [CHR 0xC3, CHR 0xA9]"

text \<open>
  The environment \<open>env_ok\<close> with a \<open>toLowerCase\<close> that is that of the engine on the texts
  above and on ASCII texts.
\<close>

definition env_unicode :: env where
  "env_unicode =
     env_ok\<lparr>toLowerCase :=
       (\<lambda>s. if s = text_odos then text_odos_lower
            else if s = text_sigma then text_sigma_lower
            else if s = text_cafe then text_cafe_lower
            else if s = text_e_acute then text_e_acute
            else toLowerCase_ascii s)\<rparr>"

definition scan_cafe :: scan where
  "scan_cafe =
     \<lparr>id_scan = ''f1'', userId = Some ''u1'', userEmail = Some ''u1@example.com'',
      qrData = text_cafe, timestamp = 1699996400000,
      location = None, type_scan = None\<rparr>"

definition scan_odos :: scan where
  "scan_odos =
     \<lparr>id_scan = ''g1'', userId = Some ''u1'', userEmail = Some ''u1@example.com'',
      qrData = text_odos, timestamp = 1699996400000,
      location = None, type_scan = None\<rparr>"

definition user_remote :: user where
  "user_remote = \<lparr>uid = ''u1'', email = ''u1@example.com''\<rparr>"

definition user_demo :: user where
  "user_demo = \<lparr>uid = ''demo-user'', email = ''demo@example.com''\<rparr>"

definition doc_example :: doc where
  "doc_example =
     \<lparr>doc_id = ''abc'', doc_userId = ''u1'', doc_userEmail = ''u1@example.com'',
      doc_qrData = ''tel:+15551234567'', doc_timestamp = Some 1699990000000,
      doc_location = None\<rparr>"

text \<open>The state when the screen is mounted on a device with an empty cache.\<close>

definition world_fresh :: world where
  "world_fresh =
     \<lparr>scans = [], loading = True, storage = Map.empty, remote = [doc_example],
      alerts = [], console = []\<rparr>"

text \<open>
  A state of the demo user in which the first seed record has been deleted: neither the
  list on screen nor the snapshot holds it.
\<close>

definition world_demo_deleted :: world where
  "world_demo_deleted =
     \<lparr>scans = tl (demoScans_default env_ok), loading = False,
      storage = [''demoScans'' \<mapsto> Records (tl (demoScans_default env_ok))],
      remote = [doc_example], alerts = [], console = []\<rparr>"

text \<open>
  A state of the user \<open>user_remote\<close> with one record on screen, no backup snapshot, and a
  demo snapshot left in the cache.
\<close>

definition world_remote :: world where
  "world_remote =
     \<lparr>scans = [scan_of_doc env_ok doc_example], loading = False,
      storage = [''demoScans'' \<mapsto> Records (demoScans_default env_ok)],
      remote = [doc_example], alerts = [], console = []\<rparr>"

text \<open>The state \<open>world_fresh\<close> with a backup snapshot of one record in the cache.\<close>

definition world_backup :: world where
  "world_backup = world_fresh\<lparr>storage := [''scanHistory'' \<mapsto> Records [scan_recent]]\<rparr>"

text \<open>A state of the demo user right after the first load.\<close>

definition world_demo :: world where
  "world_demo =
     \<lparr>scans = demoScans_default env_ok, loading = False,
      storage = [''demoScans'' \<mapsto> Records (demoScans_default env_ok)],
      remote = [doc_example], alerts = [], console = []\<rparr>"

text \<open>
  Reading the snapshot under the key \<open>k\<close> throws: the call is rejected, or the text found
  is not that of an array of records.
\<close>

definition read_throws :: "env \<Rightarrow> string \<Rightarrow> world \<Rightarrow> bool" where
  "read_throws e k w =
     (fails e (GetItem k) \<or> (case storage w k of Some (Other s) \<Rightarrow> s \<noteq> [] | _ \<Rightarrow> False))"

text \<open>The store operation that \<^verbatim>\<open>deleteScan\<close> performs for the user is rejected.\<close>

definition delete_store_fails :: "env \<Rightarrow> user option \<Rightarrow> bool" where
  "delete_store_fails e usr =
     (if is_remote_user usr then fails e DeleteDoc else fails e (SetItem ''demoScans''))"

section \<open>Auxiliary facts\<close>

subsection \<open>Strings\<close>

lemma startsWith_prefix: "startsWith d p = prefix p d"
  by (induction d p rule: startsWith.induct) auto

lemma includes_str_sublist: "includes_str d s = sublist s d"
  by (induction d) (auto simp: startsWith_prefix sublist_Cons_right)

lemma letters_distinct: "distinct upper_letters" "distinct lower_letters"
  by (simp_all add: upper_letters_def lower_letters_def)

lemma letters_length: "length upper_letters = length lower_letters"
  by (simp add: upper_letters_def lower_letters_def)

lemma letters_disjoint: "l \<in> set lower_letters \<Longrightarrow> l \<notin> set upper_letters"
  by (auto simp: upper_letters_def lower_letters_def)

lemma lower_char_upper:
  assumes "(a, l) \<in> set (zip upper_letters lower_letters)"
  shows "lower_char a = l" and "lower_char l = l"
proof -
  have "distinct (map fst (zip upper_letters lower_letters))"
    by (simp add: letters_length letters_distinct)
  then have "map_of (zip upper_letters lower_letters) a = Some l"
    using assms by (rule map_of_is_SomeI)
  then show "lower_char a = l" by (simp add: lower_char_def)
  from assms have "l \<in> set lower_letters" by (rule set_zip_rightD)
  then have "l \<notin> set upper_letters" by (rule letters_disjoint)
  then have "map_of (zip upper_letters lower_letters) l = None"
    by (auto simp: map_of_eq_None_iff dest: set_zip_leftD)
  then show "lower_char l = l" by (simp add: lower_char_def)
qed

lemma lower_char_cases:
  "lower_char a = a \<or> (a, lower_char a) \<in> set (zip upper_letters lower_letters)"
  by (auto simp: lower_char_def split: option.splits dest: map_of_SomeD)

lemma upper_letters_inj:
  assumes "(a, l) \<in> set (zip upper_letters lower_letters)"
    and "(b, l) \<in> set (zip upper_letters lower_letters)"
  shows "a = b"
proof -
  from assms obtain i j where
    i: "i < length lower_letters" "upper_letters ! i = a" "lower_letters ! i = l" and
    j: "j < length lower_letters" "upper_letters ! j = b" "lower_letters ! j = l"
    by (auto simp: in_set_zip)
  from i(3) j(3) have "lower_letters ! i = lower_letters ! j" by simp
  with i(1) j(1) have "i = j"
    using letters_distinct(2) by (simp add: nth_eq_iff_index_eq)
  with i(2) j(2) show ?thesis by simp
qed

lemma same_letter_iff: "same_letter a b \<longleftrightarrow> lower_char a = lower_char b"
proof
  assume "same_letter a b"
  then show "lower_char a = lower_char b"
    unfolding same_letter_def using lower_char_upper [of a b] lower_char_upper [of b a] by auto
next
  assume eq: "lower_char a = lower_char b"
  consider "lower_char a = a" "lower_char b = b"
    | "lower_char a = a" "(b, lower_char b) \<in> set (zip upper_letters lower_letters)"
    | "(a, lower_char a) \<in> set (zip upper_letters lower_letters)" "lower_char b = b"
    | "(a, lower_char a) \<in> set (zip upper_letters lower_letters)"
      "(b, lower_char b) \<in> set (zip upper_letters lower_letters)"
    using lower_char_cases [of a] lower_char_cases [of b] by blast
  then show "same_letter a b"
  proof cases
    case 1 with eq show ?thesis by (simp add: same_letter_def)
  next
    case 2 with eq show ?thesis by (simp add: same_letter_def)
  next
    case 3 with eq show ?thesis by (simp add: same_letter_def)
  next
    case 4
    with eq have "a = b" using upper_letters_inj [of a "lower_char a" b] by simp
    then show ?thesis by (simp add: same_letter_def)
  qed
qed

lemma same_case_iff: "list_all2 same_letter u s \<longleftrightarrow> toLowerCase_ascii u = toLowerCase_ascii s"
proof -
  have "list_all2 same_letter u s \<longleftrightarrow> list_all2 (\<lambda>a b. lower_char a = lower_char b) u s"
    by (simp add: same_letter_iff [abs_def])
  also have "\<dots> \<longleftrightarrow> list_all2 (=) (map lower_char u) (map lower_char s)"
    by (simp add: list.rel_map)
  finally show ?thesis by (simp add: toLowerCase_ascii_def list.rel_eq)
qed

lemma includes_lower_iff:
  "includes_str (toLowerCase_ascii d) (toLowerCase_ascii s) \<longleftrightarrow> occurs_ignoring_case s d"
proof
  assume "includes_str (toLowerCase_ascii d) (toLowerCase_ascii s)"
  then obtain ps ss where "map lower_char d = ps @ (map lower_char s @ ss)"
    by (auto simp: includes_str_sublist sublist_def toLowerCase_ascii_def)
  then have "\<exists>ps' r. d = ps' @ r \<and> ps = map lower_char ps' \<and> map lower_char s @ ss = map lower_char r"
    by (simp only: map_eq_append_conv)
  then obtain ps' r where d: "d = ps' @ r" and r: "map lower_char r = map lower_char s @ ss"
    by auto
  from r have "\<exists>u ss'. r = u @ ss' \<and> map lower_char s = map lower_char u \<and> ss = map lower_char ss'"
    by (simp only: map_eq_append_conv)
  then obtain u ss' where u: "r = u @ ss'" "map lower_char u = map lower_char s"
    by auto
  from u(2) have "list_all2 same_letter u s"
    by (simp add: same_case_iff toLowerCase_ascii_def)
  with d u(1) show "occurs_ignoring_case s d"
    unfolding occurs_ignoring_case_def by blast
next
  assume "occurs_ignoring_case s d"
  then obtain ps u ss where "d = ps @ u @ ss" "toLowerCase_ascii u = toLowerCase_ascii s"
    unfolding occurs_ignoring_case_def same_case_iff by blast
  then have "toLowerCase_ascii d = toLowerCase_ascii ps @ toLowerCase_ascii s @ toLowerCase_ascii ss"
    by (simp add: toLowerCase_ascii_def)
  then show "includes_str (toLowerCase_ascii d) (toLowerCase_ascii s)"
    by (simp add: includes_str_sublist)
qed

subsection \<open>Time\<close>

lemma local_midnight_start: "local_midnight e = start_of_local_day e (local_day e (now e))"
  by (simp add: local_midnight_def UTC_def start_of_local_day_def)

lemma start_of_day_le:
  assumes mono: "zone_dates_monotone e" and start: "zone_day_start e d"
  shows "start_of_local_day e d \<le> t \<longleftrightarrow> d \<le> local_day e t"
proof
  assume "start_of_local_day e d \<le> t"
  with mono have "local_day e (start_of_local_day e d) \<le> local_day e t"
    by (simp add: zone_dates_monotone_def)
  with start show "d \<le> local_day e t"
    by (simp add: zone_day_start_def)
next
  assume later: "d \<le> local_day e t"
  show "start_of_local_day e d \<le> t"
  proof (rule ccontr)
    assume "\<not> start_of_local_day e d \<le> t"
    then have "t \<le> start_of_local_day e d - 1" by simp
    with mono have "local_day e t \<le> local_day e (start_of_local_day e d - 1)"
      by (simp add: zone_dates_monotone_def)
    also from start have "\<dots> < d" by (simp add: zone_day_start_def)
    finally show False using later by simp
  qed
qed

lemma midnight_le:
  assumes "zone_dates_monotone e" and "zone_day_start e (local_day e (now e))"
  shows "local_midnight e \<le> t \<longleftrightarrow> local_day e (now e) \<le> local_day e t"
  using start_of_day_le [OF assms] by (simp add: local_midnight_start)

text \<open>The zone of \<open>env_berlin\<close>, with its change of daylight saving time, has both properties.\<close>

lemma local_day_berlin:
  "local_day env_berlin t =
     (if t < 1698541200000 then (t + 7200000) div 86400000 else (t + 3600000) div 86400000)"
  by (simp add: local_day_def LocalTime_def env_berlin_def day_ms_def)

lemma berlin_dates_monotone: "zone_dates_monotone env_berlin"
  unfolding zone_dates_monotone_def
proof (intro allI impI)
  fix t t' :: int
  assume le: "t \<le> t'"
  consider "t' < 1698541200000" | "1698541200000 \<le> t" | "t < 1698541200000" "1698541200000 \<le> t'"
    using le by linarith
  then show "local_day env_berlin t \<le> local_day env_berlin t'"
  proof cases
    case 1
    with le show ?thesis by (simp add: local_day_berlin zdiv_mono1)
  next
    case 2
    with le show ?thesis by (simp add: local_day_berlin zdiv_mono1)
  next
    case 3
    from 3(1) have "(t + 7200000) div 86400000 \<le> (1698548399999 :: int) div 86400000"
      by (intro zdiv_mono1) simp_all
    moreover from 3(2) have "(1698544800000 :: int) div 86400000 \<le> (t' + 3600000) div 86400000"
      by (intro zdiv_mono1) simp_all
    ultimately show ?thesis using 3 by (simp add: local_day_berlin)
  qed
qed

lemma berlin_today: "local_day env_berlin (now env_berlin) = 19659"
  by (simp add: local_day_berlin) (simp add: env_berlin_def)

lemma berlin_midnight: "start_of_local_day env_berlin 19659 = 1698530400000"
  by (simp add: start_of_local_day_def env_berlin_def day_ms_def)

lemma berlin_day_start: "zone_day_start env_berlin 19659"
  by (simp add: zone_day_start_def berlin_midnight local_day_berlin)

subsection \<open>The filter\<close>

lemma time_filter:
  "(case cutoffDate e tf of
      Some cutoff \<Rightarrow> filter (\<lambda>scan. timestamp scan \<ge> cutoff) records
    | None \<Rightarrow> records)
   = filter (\<lambda>scan. in_time_window e tf (timestamp scan)) records"
proof -
  have time_pt:
    "(case cutoffDate e tf of Some cutoff \<Rightarrow> cutoff \<le> t | None \<Rightarrow> True) = in_time_window e tf t"
    for t
    by (auto simp: cutoffDate_def in_time_window_def day_ms_def local_midnight_start)
  show ?thesis
  proof (cases "cutoffDate e tf")
    case None
    then have "in_time_window e tf t" for t using time_pt [of t] by simp
    with None show ?thesis by simp
  next
    case (Some c)
    then have "in_time_window e tf t = (c \<le> t)" for t using time_pt [of t] by simp
    with Some show ?thesis by simp
  qed
qed

lemma filterScans_as_filter:
  "filterScans e records tf s =
     filter (\<lambda>scan. in_time_window e tf (timestamp scan)
               \<and> (s = [] \<or> sublist (toLowerCase e s) (toLowerCase e (qrData scan)))) records"
proof -
  have all: "in_time_window e ''all'' t" for t
    by (simp add: in_time_window_def)
  show ?thesis
  proof (cases "s = []")
    case True
    then show ?thesis
      by (cases "tf = ''all''") (simp_all add: filterScans_def time_filter all)
  next
    case False
    then show ?thesis
      by (cases "tf = ''all''")
        (simp_all add: filterScans_def time_filter all includes_str_sublist)
  qed
qed

lemma ascii_search:
  assumes "engine_lowers_ascii e" and "ascii_text s" and "ascii_text d"
  shows "(s = [] \<or> sublist (toLowerCase e s) (toLowerCase e d))
           = (s = [] \<or> occurs_ignoring_case s d)"
proof -
  from assms have "toLowerCase e s = toLowerCase_ascii s" "toLowerCase e d = toLowerCase_ascii d"
    by (simp_all add: engine_lowers_ascii_def)
  then show ?thesis
    using includes_lower_iff [of d s] by (simp add: includes_str_sublist)
qed

lemma engine_ascii_env_ok: "engine_lowers_ascii env_ok"
  by (simp add: engine_lowers_ascii_def env_ok_def)

lemmas eval_strings =
  toLowerCase_ascii_def lower_char_def upper_letters_def lower_letters_def ascii_text_def

subsection \<open>Effects\<close>

lemmas io_defs =
  return_io_def bind_io_def try_catch_def try_finally_def get_scans_def setScans_def
  setLoading_def Alert_alert_def console_error_def AsyncStorage_getItem_def
  AsyncStorage_setItem_def AsyncStorage_removeItem_def JSON_stringify_def
  JSON_parse_scans_def getDocs_def deleteDoc_def Let_def

text \<open>What \<^verbatim>\<open>getDemoScans\<close> does when it reseeds, after the state \<open>w\<close>.\<close>

lemma getDemoScans_stored:
  assumes "\<not> fails e (GetItem ''demoScans'')"
    and "storage w ''demoScans'' = Some (Records xs)"
  shows "getDemoScans e w = Returns xs w"
  using assms by (simp add: getDemoScans_def io_defs)

lemma getDemoScans_empty:
  assumes "\<not> fails e (GetItem ''demoScans'')"
    and "\<not> truthy (storage w ''demoScans'')"
  shows "getDemoScans e w =
           Returns (demoScans_default e)
             (if fails e (SetItem ''demoScans'')
              then w\<lparr>console := console w @ [''Error saving demo scans:'']\<rparr>
              else w\<lparr>storage := (storage w)(''demoScans'' \<mapsto> Records (demoScans_default e))\<rparr>)"
  using assms by (simp add: getDemoScans_def io_defs)

lemma getDemoScans_read_error:
  assumes "fails e (GetItem ''demoScans'')
           \<or> (\<exists>s. s \<noteq> [] \<and> storage w ''demoScans'' = Some (Other s))"
  shows "getDemoScans e w =
           Returns (demoScans_default e)
             (if fails e (SetItem ''demoScans'')
              then w\<lparr>console := console w @ [''Error loading demo scans:'',
                                                ''Error saving demo scans:'']\<rparr>
              else w\<lparr>console := console w @ [''Error loading demo scans:''],
                     storage := (storage w)(''demoScans'' \<mapsto> Records (demoScans_default e))\<rparr>)"
  using assms by (auto simp add: getDemoScans_def io_defs)

lemma fetchScanHistory_demo:
  assumes "is_demo usr"
    and "getDemoScans e (w\<lparr>loading := True\<rparr>) = Returns xs w'"
  shows "fetchScanHistory e usr w = Returns () (w'\<lparr>scans := xs, loading := False\<rparr>)"
  using assms
  by (auto simp add: fetchScanHistory_def is_demo_def bind_io_def try_catch_def
        try_finally_def setLoading_def setScans_def Let_def split: option.splits)

lemma is_remote_user_iff: "is_remote_user usr = (\<not> is_demo usr)"
  by (simp add: is_remote_user_def is_demo_def split: option.splits)

lemma load_demo_stored:
  assumes "is_demo usr" and "\<not> fails e (GetItem ''demoScans'')"
    and "storage w ''demoScans'' = Some (Records xs)"
  shows "fetchScanHistory e usr w = Returns () (w\<lparr>scans := xs, loading := False\<rparr>)"
proof -
  have "getDemoScans e (w\<lparr>loading := True\<rparr>) = Returns xs (w\<lparr>loading := True\<rparr>)"
    using assms(2,3) by (simp add: getDemoScans_stored)
  with assms(1) show ?thesis by (simp add: fetchScanHistory_demo)
qed

lemma load_demo_reseed:
  assumes "is_demo usr"
    and "read_throws e ''demoScans'' w \<or> \<not> truthy (storage w ''demoScans'')"
  shows "\<exists>w1. fetchScanHistory e usr w = Returns () w1
           \<and> scans w1 = demoScans_default e \<and> alerts w1 = alerts w \<and> remote w1 = remote w
           \<and> storage w1 = (if fails e (SetItem ''demoScans'') then storage w
                            else (storage w)(''demoScans'' \<mapsto> Records (demoScans_default e)))"
proof (cases "read_throws e ''demoScans'' w")
  case True
  then have "fails e (GetItem ''demoScans'')
             \<or> (\<exists>s. s \<noteq> [] \<and> storage (w\<lparr>loading := True\<rparr>) ''demoScans'' = Some (Other s))"
    by (auto simp: read_throws_def split: option.splits stored.splits)
  from getDemoScans_read_error [OF this] assms(1) show ?thesis
    by (simp add: fetchScanHistory_demo)
next
  case False
  with assms(2) have "\<not> fails e (GetItem ''demoScans'')"
    and "\<not> truthy (storage (w\<lparr>loading := True\<rparr>) ''demoScans'')"
    by (auto simp: read_throws_def)
  from getDemoScans_empty [OF this] assms(1) show ?thesis
    by (simp add: fetchScanHistory_demo)
qed

lemma getDemoScans_returns: "\<exists>xs w'. getDemoScans e w = Returns xs w'"
  by (simp add: getDemoScans_def io_defs split: option.splits stored.splits)

lemma load_remote_down:
  assumes "\<not> is_demo usr" and "fails e GetDocs"
  shows "fetchScanHistory e usr w =
           (let w0 = w\<lparr>console := console w @ [''Error fetching scan history:'']\<rparr> in
            if fails e (GetItem ''scanHistory'') then
              Returns () (w0\<lparr>console := console w0 @ [''Error loading local scan history:''],
                 alerts := alerts w @ [(''Error'', ''Failed to load scan history'')],
                 loading := False\<rparr>)
            else
              (case storage w ''scanHistory'' of
                 None \<Rightarrow> Returns () (w0\<lparr>loading := False\<rparr>)
               | Some (Records xs) \<Rightarrow> Returns () (w0\<lparr>scans := xs, loading := False\<rparr>)
               | Some (Other s) \<Rightarrow>
                   if s = [] then Returns () (w0\<lparr>loading := False\<rparr>)
                   else Returns ()
                     (w0\<lparr>console := console w0 @ [''Error loading local scan history:''],
                        alerts := alerts w @ [(''Error'', ''Failed to load scan history'')],
                        loading := False\<rparr>)))"
  using assms
  by (simp add: fetchScanHistory_def io_defs is_demo_def split: option.splits stored.splits)

lemma load_returns: "returned (fetchScanHistory e usr w) \<and> loading (final (fetchScanHistory e usr w)) = False"
proof (cases "is_demo usr")
  case True
  obtain xs w' where "getDemoScans e (w\<lparr>loading := True\<rparr>) = Returns xs w'"
    using getDemoScans_returns by blast
  from fetchScanHistory_demo [OF True this] show ?thesis by simp
next
  case False
  then show ?thesis
    by (simp add: fetchScanHistory_def io_defs is_demo_def split: option.splits stored.splits)
qed

section \<open>The claims\<close>

text \<open>
  C7. For every input string the classifier applies its rules in order and the first
  match wins: prefix \<^verbatim>\<open>http://\<close> or \<^verbatim>\<open>https://\<close> gives url, prefix \<^verbatim>\<open>mailto:\<close> gives email,
  prefix \<^verbatim>\<open>tel:\<close> gives phone, prefix \<^verbatim>\<open>WiFi:\<close> gives wifi, containing \<^verbatim>\<open>Contact:\<close> or
  \<^verbatim>\<open>VCARD\<close> gives contact, anything else gives text. In particular
  \<^verbatim>\<open>https://example.com\<close> is a url, \<^verbatim>\<open>WiFi:T:WPA;S:Net;P:pw;;\<close> is wifi and
  \<^verbatim>\<open>plain text\<close> is text.
\<close>

theorem getQRType_rules:
  "type_qr (getQRType d) = classify_rules d
   \<and> type_qr (getQRType ''https://example.com'') = ''url''
   \<and> type_qr (getQRType ''WiFi:T:WPA;S:Net;P:pw;;'') = ''wifi''
   \<and> type_qr (getQRType ''plain text'') = ''text''"
proof -
  have "type_qr (getQRType d) = classify_rules d"
    by (simp add: getQRType_def classify_rules_def startsWith_prefix includes_str_sublist)
  moreover have "type_qr (getQRType ''https://example.com'') = ''url''"
    by (simp add: getQRType_def)
  moreover have "type_qr (getQRType ''WiFi:T:WPA;S:Net;P:pw;;'') = ''wifi''"
    by (simp add: getQRType_def)
  moreover have "type_qr (getQRType ''plain text'') = ''text''"
    by (simp add: getQRType_def)
  ultimately show ?thesis by simp
qed

theorem getQRType_rules_witness:
  "type_qr (getQRType ''tel:+15551234567'') = ''phone''
   \<and> classify_rules ''tel:+15551234567'' = ''phone''"
  using getQRType_rules [of "''tel:+15551234567''"] by (simp add: getQRType_def)

text \<open>
  C10. With the time filter \<^verbatim>\<open>all\<close> and an empty search text, \<^verbatim>\<open>filterScans\<close> is the
  identity: it returns the input list, the same elements in the same order.
\<close>

theorem filterScans_all_identity:
  "filterScans e records ''all'' '''' = records"
  by (simp add: filterScans_def)

theorem filterScans_all_identity_witness:
  "filterScans env_ok [scan_recent, scan_later] ''all'' '''' = [scan_recent, scan_later]"
  by (rule filterScans_all_identity)

text \<open>
  C4 (amended). For every record list, time filter and search text, \<^verbatim>\<open>filterScans\<close> keeps
  exactly the records that satisfy both the time predicate and the search predicate, in
  the order of the input. An empty search text matches every record; a non-empty one
  matches a record iff the search text, lowercased by \<^verbatim>\<open>toLowerCase\<close>, occurs as a substring
  of the record's \<^verbatim>\<open>qrData\<close>, lowercased by \<^verbatim>\<open>toLowerCase\<close>. For ASCII texts, which
  the engine lowercases letter by letter, this is the same as the search text occurring
  in \<^verbatim>\<open>qrData\<close> as a substring up to the case of its letters.
\<close>

theorem filterScans_time_and_search:
  "filterScans e records timeFilter searchText =
     filter (\<lambda>scan. in_time_window e timeFilter (timestamp scan)
               \<and> (searchText = []
                    \<or> sublist (toLowerCase e searchText) (toLowerCase e (qrData scan))))
       records
   \<and> subseq (filterScans e records timeFilter searchText) records
   \<and> (engine_lowers_ascii e \<and> ascii_text searchText
         \<and> (\<forall>scan \<in> set records. ascii_text (qrData scan)) \<longrightarrow>
        filterScans e records timeFilter searchText =
          filter (\<lambda>scan. in_time_window e timeFilter (timestamp scan)
                    \<and> search_matches searchText scan) records)"
proof -
  have exact: "filterScans e records timeFilter searchText =
     filter (\<lambda>scan. in_time_window e timeFilter (timestamp scan)
               \<and> (searchText = []
                    \<or> sublist (toLowerCase e searchText) (toLowerCase e (qrData scan))))
       records"
    by (rule filterScans_as_filter)
  have order: "subseq (filterScans e records timeFilter searchText) records"
    by (simp add: filterScans_as_filter)
  have "filterScans e records timeFilter searchText =
          filter (\<lambda>scan. in_time_window e timeFilter (timestamp scan)
                    \<and> search_matches searchText scan) records"
    if "engine_lowers_ascii e" "ascii_text searchText"
      "\<forall>scan \<in> set records. ascii_text (qrData scan)"
    unfolding exact search_matches_def
    using that by (intro filter_cong refl) (simp add: ascii_search)
  with exact order show ?thesis by blast
qed

theorem filterScans_time_and_search_witness:
  "filterScans env_ok (demoScans_default env_ok) ''all'' ''wifi''
     = [demoScans_default env_ok ! 4]
   \<and> filter (\<lambda>scan. in_time_window env_ok ''all'' (timestamp scan)
                \<and> search_matches ''wifi'' scan) (demoScans_default env_ok)
     = [demoScans_default env_ok ! 4]
   \<and> filterScans env_ok [scan_recent, scan_later] ''today'' ''ONE@''
     = filter (\<lambda>scan. in_time_window env_ok ''today'' (timestamp scan)
                \<and> search_matches ''ONE@'' scan) [scan_recent, scan_later]
   \<and> filterScans env_ok [scan_recent, scan_later] ''today'' ''ONE@'' = [scan_recent]
   \<and> filterScans env_unicode [scan_cafe] ''all'' text_e_acute = [scan_cafe]"
proof -
  have run3: "filterScans env_unicode [scan_cafe] ''all'' text_e_acute = [scan_cafe]"
    by (simp add: filterScans_def env_unicode_def env_ok_def scan_cafe_def text_cafe_def
          text_cafe_lower_def text_e_acute_def text_odos_def text_sigma_def)
  let ?r = "demoScans_default env_ok ! 4"
  have run: "filterScans env_ok (demoScans_default env_ok) ''all'' ''wifi'' = [?r]"
    by (simp add: filterScans_def demoScans_default_def env_ok_def eval_strings)
  have run2: "filterScans env_ok [scan_recent, scan_later] ''today'' ''ONE@'' = [scan_recent]"
    by (simp add: filterScans_def cutoffDate_def local_midnight_def UTC_def local_day_def
          LocalTime_def day_ms_def scan_recent_def scan_later_def env_ok_def eval_strings)
  have ascii: "ascii_text ''wifi''" "\<forall>scan \<in> set (demoScans_default env_ok). ascii_text (qrData scan)"
    "ascii_text ''ONE@''" "\<forall>scan \<in> set [scan_recent, scan_later]. ascii_text (qrData scan)"
    by (simp_all add: demoScans_default_def scan_recent_def scan_later_def ascii_text_def)
  from filterScans_time_and_search [of env_ok "demoScans_default env_ok" "''all''" "''wifi''"]
    engine_ascii_env_ok ascii(1,2)
  have 1: "filterScans env_ok (demoScans_default env_ok) ''all'' ''wifi'' =
          filter (\<lambda>scan. in_time_window env_ok ''all'' (timestamp scan)
                    \<and> search_matches ''wifi'' scan) (demoScans_default env_ok)"
    by blast
  from filterScans_time_and_search [of env_ok "[scan_recent, scan_later]" "''today''" "''ONE@''"]
    engine_ascii_env_ok ascii(3,4)
  have 2: "filterScans env_ok [scan_recent, scan_later] ''today'' ''ONE@'' =
          filter (\<lambda>scan. in_time_window env_ok ''today'' (timestamp scan)
                    \<and> search_matches ''ONE@'' scan) [scan_recent, scan_later]"
    by blast
  show ?thesis
    by (intro conjI)
      (rule run, rule trans [OF 1 [symmetric] run], rule 2, rule run2, rule run3)
qed

text \<open>
  C4 as stated fails. The capital sigma occurs in the Greek word, literally and so also
  up to case, and the search for it does not find the record: lowercased within the
  word, the sigma at its end takes the final form, lowercased alone it does not.
\<close>

theorem filterScans_search_counterexample:
  "text_sigma \<noteq> []
   \<and> sublist text_sigma (qrData scan_odos)
   \<and> occurs_ignoring_case text_sigma (qrData scan_odos)
   \<and> filterScans env_unicode [scan_odos] ''all'' text_sigma = []"
proof -
  have occ: "qrData scan_odos = take 6 text_odos @ text_sigma @ []"
    by (simp add: scan_odos_def text_odos_def text_sigma_def)
  have same: "list_all2 same_letter text_sigma text_sigma"
    by (simp add: same_letter_def list_all2_same)
  have "sublist text_sigma (qrData scan_odos)"
    unfolding sublist_def using occ by blast
  moreover have "occurs_ignoring_case text_sigma (qrData scan_odos)"
    unfolding occurs_ignoring_case_def using occ same by blast
  moreover have "filterScans env_unicode [scan_odos] ''all'' text_sigma = []"
    by (simp add: filterScans_def env_unicode_def env_ok_def scan_odos_def text_odos_def
          text_odos_lower_def text_sigma_def text_sigma_lower_def)
  moreover have "text_sigma \<noteq> []"
    by (simp add: text_sigma_def)
  ultimately show ?thesis by simp
qed

text \<open>
  C3 (amended). For every record list, \<^verbatim>\<open>filterScans\<close> with the time filter \<^verbatim>\<open>today\<close> and an
  empty search text returns exactly the records whose timestamp is at or after local
  midnight of the current day; there is no upper bound. In a time zone where local
  dates never run backwards and local midnight is where the current day begins, these
  are the records that fall on the current local calendar day or on a later one; and
  when, in addition, no record of the list is dated after the current day, they are
  exactly the records that fall on the current local calendar day.
\<close>

theorem filterScans_today:
  "filterScans e records ''today'' ''''
     = filter (\<lambda>scan. start_of_local_day e (local_day e (now e)) \<le> timestamp scan) records
   \<and> (zone_dates_monotone e \<and> zone_day_start e (local_day e (now e)) \<longrightarrow>
        filterScans e records ''today'' ''''
          = filter (\<lambda>scan. local_day e (now e) \<le> local_day e (timestamp scan)) records
        \<and> ((\<forall>scan \<in> set records. local_day e (timestamp scan) \<le> local_day e (now e)) \<longrightarrow>
             filterScans e records ''today'' ''''
               = filter (\<lambda>scan. on_current_day e (timestamp scan)) records))"
proof -
  have a: "filterScans e records ''today'' ''''
             = filter (\<lambda>scan. start_of_local_day e (local_day e (now e)) \<le> timestamp scan)
                 records"
    by (simp add: filterScans_def cutoffDate_def local_midnight_start)
  have b: "filterScans e records ''today'' ''''
             = filter (\<lambda>scan. local_day e (now e) \<le> local_day e (timestamp scan)) records"
    if "zone_dates_monotone e" "zone_day_start e (local_day e (now e))"
    unfolding a by (simp add: start_of_day_le [OF that])
  have c: "filter (\<lambda>scan. local_day e (now e) \<le> local_day e (timestamp scan)) records
          = filter (\<lambda>scan. on_current_day e (timestamp scan)) records"
    if "\<forall>scan \<in> set records. local_day e (timestamp scan) \<le> local_day e (now e)"
    using that by (intro filter_cong refl) (auto simp: on_current_day_def)
  from a b c show ?thesis by simp
qed

theorem filterScans_today_witness:
  "filterScans env_berlin [scan_berlin_night, scan_berlin_eve] ''today'' ''''
     = [scan_berlin_night]
   \<and> filter (\<lambda>scan. on_current_day env_berlin (timestamp scan))
        [scan_berlin_night, scan_berlin_eve] = [scan_berlin_night]
   \<and> start_of_local_day env_berlin (local_day env_berlin (now env_berlin)) = 1698530400000"
proof -
  let ?rs = "[scan_berlin_night, scan_berlin_eve]"
  have zone: "zone_dates_monotone env_berlin"
    "zone_day_start env_berlin (local_day env_berlin (now env_berlin))"
    by (simp_all add: berlin_dates_monotone berlin_today berlin_day_start)
  have days: "local_day env_berlin (timestamp scan_berlin_night) = 19659"
    "local_day env_berlin (timestamp scan_berlin_eve) = 19658"
    by (simp_all add: local_day_berlin scan_berlin_night_def scan_berlin_eve_def)
  have old: "\<forall>scan \<in> set ?rs. local_day env_berlin (timestamp scan)
               \<le> local_day env_berlin (now env_berlin)"
    by (simp add: berlin_today days)
  have run: "filterScans env_berlin ?rs ''today'' '''' = [scan_berlin_night]"
    by (simp add: filterScans_def cutoffDate_def local_midnight_start berlin_today
          berlin_midnight scan_berlin_night_def scan_berlin_eve_def)
  from filterScans_today [of env_berlin ?rs] zone old
  have eq: "filterScans env_berlin ?rs ''today'' ''''
          = filter (\<lambda>scan. on_current_day env_berlin (timestamp scan)) ?rs"
    by blast
  have mid: "start_of_local_day env_berlin (local_day env_berlin (now env_berlin))
               = 1698530400000"
    by (simp add: berlin_today berlin_midnight)
  show ?thesis
    by (intro conjI) (rule run, rule trans [OF eq [symmetric] run], rule mid)
qed

text \<open>
  C3 as stated fails: a record dated two days after \<open>now\<close> does not fall on the current
  local calendar day, and the filter \<^verbatim>\<open>today\<close> keeps it.
\<close>

theorem filterScans_today_counterexample:
  "scan_later \<in> set (filterScans env_ok [scan_later] ''today'' '''')
   \<and> \<not> on_current_day env_ok (timestamp scan_later)"
  by (simp add: filterScans_def cutoffDate_def local_midnight_def UTC_def local_day_def
        LocalTime_def day_ms_def on_current_day_def scan_later_def env_ok_def)

text \<open>
  C2 (amended). Starting from the 5 freshly seeded demo records (1 to 5 days old at seed
  time), \<^verbatim>\<open>filterScans\<close> with the time filter \<^verbatim>\<open>week\<close> and an empty search text excludes
  none of them: all 5 lie within the last 7 days, so it returns all 5 records, in their
  newest-first order. This holds as long as the filter runs no later than 2 days after
  the seeding. It returns exactly 3 records, the 3 newest, when and only when it runs
  more than 3 and at most 4 days after the seeding.
\<close>

theorem filterScans_week_on_seeds:
  "sorted_wrt (>) (map timestamp (demoScans_default e))
   \<and> (now e' \<le> now e + 2 * day_ms \<longrightarrow>
        filterScans e' (demoScans_default e) ''week'' '''' = demoScans_default e)
   \<and> (now e + 3 * day_ms < now e' \<and> now e' \<le> now e + 4 * day_ms \<longrightarrow>
        filterScans e' (demoScans_default e) ''week'' '''' = take 3 (demoScans_default e))
   \<and> (length (filterScans e' (demoScans_default e) ''week'' '''') = 3 \<longrightarrow>
        now e + 3 * day_ms < now e' \<and> now e' \<le> now e + 4 * day_ms)"
proof -
  have "sorted_wrt (>) (map timestamp (demoScans_default e))"
    by (simp add: demoScans_default_def)
  moreover have "filterScans e' (demoScans_default e) ''week'' '''' = demoScans_default e"
    if "now e' \<le> now e + 2 * day_ms"
    using that by (simp add: filterScans_def cutoffDate_def demoScans_default_def day_ms_def)
  moreover have "filterScans e' (demoScans_default e) ''week'' ''''
                   = take 3 (demoScans_default e)"
    if "now e + 3 * day_ms < now e' \<and> now e' \<le> now e + 4 * day_ms"
    using that by (simp add: filterScans_def cutoffDate_def demoScans_default_def day_ms_def)
  moreover have "now e + 3 * day_ms < now e' \<and> now e' \<le> now e + 4 * day_ms"
    if "length (filterScans e' (demoScans_default e) ''week'' '''') = 3"
    using that
    by (simp add: filterScans_def cutoffDate_def demoScans_default_def day_ms_def
          split: if_splits)
  ultimately show ?thesis by blast
qed

theorem filterScans_week_on_seeds_witness:
  "filterScans env_ok (demoScans_default env_ok) ''week'' '''' = demoScans_default env_ok
   \<and> length (filterScans env_ok (demoScans_default env_ok) ''week'' '''') = 5
   \<and> filterScans env_later (demoScans_default env_ok) ''week'' ''''
       = take 3 (demoScans_default env_ok)
   \<and> length (filterScans env_later (demoScans_default env_ok) ''week'' '''') = 3
   \<and> now env_ok + 3 * day_ms < now env_later
   \<and> now env_later \<le> now env_ok + 4 * day_ms"
proof -
  have early: "now env_ok \<le> now env_ok + 2 * day_ms"
    by (simp add: day_ms_def)
  have late: "now env_ok + 3 * day_ms < now env_later \<and> now env_later \<le> now env_ok + 4 * day_ms"
    by (simp add: day_ms_def env_ok_def env_later_def)
  have len: "length (demoScans_default env_ok) = 5"
    by (simp add: demoScans_default_def)
  from filterScans_week_on_seeds [of env_ok env_ok] early
  have 1: "filterScans env_ok (demoScans_default env_ok) ''week'' '''' = demoScans_default env_ok"
    by blast
  from filterScans_week_on_seeds [of env_ok env_later] late
  have 2: "filterScans env_later (demoScans_default env_ok) ''week'' ''''
             = take 3 (demoScans_default env_ok)"
    by blast
  from 2 len have 3: "length (filterScans env_later (demoScans_default env_ok) ''week'' '''') = 3"
    by simp
  from filterScans_week_on_seeds [of env_ok env_later] 3
  have "now env_ok + 3 * day_ms < now env_later \<and> now env_later \<le> now env_ok + 4 * day_ms"
    by blast
  with 1 2 3 len show ?thesis by simp
qed

text \<open>
  C2 as stated fails: on the freshly seeded records the filter \<^verbatim>\<open>week\<close> does not return
  3 records.
\<close>

theorem filterScans_week_counterexample:
  "length (filterScans env_ok (demoScans_default env_ok) ''week'' '''') \<noteq> 3"
  by (simp add: filterScans_def cutoffDate_def demoScans_default_def env_ok_def)

text \<open>
  C1. For a demo or absent user whose local cache holds no demo snapshot, the load
  returns exactly the 5 seed records, with strictly decreasing timestamps at 1 to 5 days
  before the \<open>now\<close> of the load. When the cache accepts the write, they are stored under
  the key \<^verbatim>\<open>demoScans\<close>, and a following load, at any later instant, that can read the cache
  returns the same 5 records.
\<close>

theorem load_demo_seeds:
  assumes "is_demo usr" and "storage w ''demoScans'' = None"
  shows "returned (fetchScanHistory e usr w)
    \<and> scans (final (fetchScanHistory e usr w)) = demoScans_default e
    \<and> length (scans (final (fetchScanHistory e usr w))) = 5
    \<and> map timestamp (scans (final (fetchScanHistory e usr w)))
        = [now e - 1 * day_ms, now e - 2 * day_ms, now e - 3 * day_ms,
           now e - 4 * day_ms, now e - 5 * day_ms]
    \<and> sorted_wrt (>) (map timestamp (scans (final (fetchScanHistory e usr w))))
    \<and> (\<not> fails e (SetItem ''demoScans'') \<longrightarrow>
         storage (final (fetchScanHistory e usr w)) ''demoScans''
           = Some (JSON_stringify (demoScans_default e))
         \<and> (\<not> fails e' (GetItem ''demoScans'') \<longrightarrow>
              scans (final (fetchScanHistory e' usr (final (fetchScanHistory e usr w))))
                = demoScans_default e))"
proof -
  from assms(2) have "read_throws e ''demoScans'' w \<or> \<not> truthy (storage w ''demoScans'')"
    by simp
  from load_demo_reseed [OF assms(1) this] obtain w1 where
    w1: "fetchScanHistory e usr w = Returns () w1" "scans w1 = demoScans_default e"
      "storage w1 = (if fails e (SetItem ''demoScans'') then storage w
                     else (storage w)(''demoScans'' \<mapsto> Records (demoScans_default e)))"
    by blast
  have seeds: "length (demoScans_default e) = 5"
    "map timestamp (demoScans_default e)
       = [now e - 1 * day_ms, now e - 2 * day_ms, now e - 3 * day_ms,
          now e - 4 * day_ms, now e - 5 * day_ms]"
    "sorted_wrt (>) (map timestamp (demoScans_default e))"
    by (simp_all add: demoScans_default_def day_ms_def)
  have again: "scans (final (fetchScanHistory e' usr w1)) = demoScans_default e"
    if "\<not> fails e (SetItem ''demoScans'')" "\<not> fails e' (GetItem ''demoScans'')"
  proof -
    from that(1) w1(3) have "storage w1 ''demoScans'' = Some (Records (demoScans_default e))"
      by simp
    from load_demo_stored [OF assms(1) that(2) this] show ?thesis by simp
  qed
  from w1 seeds again show ?thesis
    by (simp add: JSON_stringify_def)
qed

theorem load_demo_seeds_witness:
  "scans (final (fetchScanHistory env_ok None world_fresh)) = demoScans_default env_ok
   \<and> storage (final (fetchScanHistory env_ok None world_fresh)) ''demoScans''
       = Some (JSON_stringify (demoScans_default env_ok))
   \<and> scans (final (fetchScanHistory env_later None
               (final (fetchScanHistory env_ok None world_fresh))))
       = demoScans_default env_ok"
proof -
  have "is_demo None" and "storage world_fresh ''demoScans'' = None"
    and "\<not> fails env_ok (SetItem ''demoScans'')"
    and "\<not> fails env_later (GetItem ''demoScans'')"
    by (simp_all add: is_demo_def world_fresh_def env_ok_def env_later_def)
  with load_demo_seeds [of None world_fresh env_ok env_later] show ?thesis
    by simp
qed

text \<open>
  C9. For a demo or absent user, when the read of the demo snapshot fails with an error
  (the cache rejects the call, or the text found cannot be parsed), the load falls
  through to reseeding without showing any alert: it returns the 5 default seed records
  and, when the cache accepts the write, stores them over whatever snapshot was there.
  Records that had been deleted from the snapshot are back.
\<close>

theorem load_demo_read_error_reseeds:
  assumes "is_demo usr" and "read_throws e ''demoScans'' w"
  shows "returned (fetchScanHistory e usr w)
    \<and> scans (final (fetchScanHistory e usr w)) = demoScans_default e
    \<and> alerts (final (fetchScanHistory e usr w)) = alerts w
    \<and> (\<not> fails e (SetItem ''demoScans'') \<longrightarrow>
         storage (final (fetchScanHistory e usr w)) ''demoScans''
           = Some (JSON_stringify (demoScans_default e)))"
proof -
  from assms(2) have "read_throws e ''demoScans'' w \<or> \<not> truthy (storage w ''demoScans'')"
    by simp
  from load_demo_reseed [OF assms(1) this] obtain w1 where
    "fetchScanHistory e usr w = Returns () w1" "scans w1 = demoScans_default e"
    "alerts w1 = alerts w"
    "storage w1 = (if fails e (SetItem ''demoScans'') then storage w
                   else (storage w)(''demoScans'' \<mapsto> Records (demoScans_default e)))"
    by blast
  then show ?thesis by (simp add: JSON_stringify_def)
qed

theorem load_demo_read_error_reseeds_witness:
  "''1'' \<notin> set (map id_scan (scans world_demo_deleted))
   \<and> storage world_demo_deleted ''demoScans'' = Some (Records (tl (demoScans_default env_ok)))
   \<and> ''1'' \<in> set (map id_scan (scans (final
        (fetchScanHistory (env_failing [GetItem ''demoScans'']) (Some user_demo)
           world_demo_deleted))))
   \<and> alerts (final (fetchScanHistory (env_failing [GetItem ''demoScans'']) (Some user_demo)
        world_demo_deleted)) = []
   \<and> storage (final (fetchScanHistory (env_failing [GetItem ''demoScans'']) (Some user_demo)
        world_demo_deleted)) ''demoScans''
       = Some (Records (demoScans_default (env_failing [GetItem ''demoScans''])))"
proof -
  have "is_demo (Some user_demo)"
    and "read_throws (env_failing [GetItem ''demoScans'']) ''demoScans'' world_demo_deleted"
    and "\<not> fails (env_failing [GetItem ''demoScans'']) (SetItem ''demoScans'')"
    by (simp_all add: is_demo_def user_demo_def read_throws_def env_failing_def)
  with load_demo_read_error_reseeds
         [of "Some user_demo" "env_failing [GetItem ''demoScans'']" world_demo_deleted]
  show ?thesis
    by (simp add: world_demo_deleted_def demoScans_default_def JSON_stringify_def)
qed

text \<open>
  C6 (amended). The load never throws and ends with the loading flag cleared. For a user
  who is not the demo user, when the query of the remote store fails, it falls back to
  the backup snapshot under \<^verbatim>\<open>scanHistory\<close>: a snapshot that can be read replaces the list
  on screen; when there is no snapshot, the list on screen is left as it was (empty on a
  first load) and no alert is shown, the failure being logged only; when reading the
  snapshot throws, the list on screen is left as it was and the alert
  \<^verbatim>\<open>Failed to load scan history\<close> is shown.
\<close>

theorem load_never_throws_and_falls_back:
  "returned (fetchScanHistory e usr w)
   \<and> loading (final (fetchScanHistory e usr w)) = False
   \<and> (\<not> is_demo usr \<and> fails e GetDocs \<longrightarrow>
        (\<not> fails e (GetItem ''scanHistory'')
           \<and> storage w ''scanHistory'' = Some (JSON_stringify xs) \<longrightarrow>
             scans (final (fetchScanHistory e usr w)) = xs
             \<and> alerts (final (fetchScanHistory e usr w)) = alerts w)
        \<and> (\<not> fails e (GetItem ''scanHistory'') \<and> \<not> truthy (storage w ''scanHistory'') \<longrightarrow>
             scans (final (fetchScanHistory e usr w)) = scans w
             \<and> alerts (final (fetchScanHistory e usr w)) = alerts w
             \<and> console (final (fetchScanHistory e usr w))
                 = console w @ [''Error fetching scan history:''])
        \<and> (read_throws e ''scanHistory'' w \<longrightarrow>
             scans (final (fetchScanHistory e usr w)) = scans w
             \<and> alerts (final (fetchScanHistory e usr w))
                 = alerts w @ [(''Error'', ''Failed to load scan history'')]
             \<and> console (final (fetchScanHistory e usr w))
                 = console w @ [''Error fetching scan history:'',
                                ''Error loading local scan history:'']))"
proof -
  have "scans (final (fetchScanHistory e usr w)) = xs
        \<and> alerts (final (fetchScanHistory e usr w)) = alerts w"
    if "\<not> is_demo usr" "fails e GetDocs" "\<not> fails e (GetItem ''scanHistory'')"
      "storage w ''scanHistory'' = Some (JSON_stringify xs)"
    using that by (simp add: load_remote_down JSON_stringify_def Let_def)
  moreover have "scans (final (fetchScanHistory e usr w)) = scans w
        \<and> alerts (final (fetchScanHistory e usr w)) = alerts w
        \<and> console (final (fetchScanHistory e usr w))
            = console w @ [''Error fetching scan history:'']"
    if "\<not> is_demo usr" "fails e GetDocs" "\<not> fails e (GetItem ''scanHistory'')"
      "\<not> truthy (storage w ''scanHistory'')"
  proof (cases "storage w ''scanHistory''")
    case None
    with that show ?thesis by (simp add: load_remote_down Let_def)
  next
    case (Some v)
    with that show ?thesis by (cases v) (simp_all add: load_remote_down Let_def)
  qed
  moreover have "scans (final (fetchScanHistory e usr w)) = scans w
        \<and> alerts (final (fetchScanHistory e usr w))
            = alerts w @ [(''Error'', ''Failed to load scan history'')]
        \<and> console (final (fetchScanHistory e usr w))
            = console w @ [''Error fetching scan history:'',
                           ''Error loading local scan history:'']"
    if "\<not> is_demo usr" "fails e GetDocs" "read_throws e ''scanHistory'' w"
    using that
    by (auto simp add: load_remote_down read_throws_def Let_def split: option.splits stored.splits)
  ultimately show ?thesis
    using load_returns [of e usr w] by blast
qed

theorem load_never_throws_and_falls_back_witness:
  "returned (fetchScanHistory (env_failing [GetDocs]) (Some user_remote) world_backup)
   \<and> scans (final (fetchScanHistory (env_failing [GetDocs]) (Some user_remote) world_backup))
       = [scan_recent]
   \<and> scans (final (fetchScanHistory (env_failing [GetDocs]) (Some user_remote) world_remote))
       = scans world_remote
   \<and> console (final (fetchScanHistory (env_failing [GetDocs]) (Some user_remote) world_remote))
       = [''Error fetching scan history:'']
   \<and> alerts (final (fetchScanHistory (env_failing [GetDocs, GetItem ''scanHistory''])
        (Some user_remote) world_remote))
       = [(''Error'', ''Failed to load scan history'')]"
proof -
  let ?down = "env_failing [GetDocs]"
  let ?off = "env_failing [GetDocs, GetItem ''scanHistory'']"
  have u: "\<not> is_demo (Some user_remote)"
    by (simp add: is_demo_def user_remote_def)
  have down: "fails ?down GetDocs" "\<not> fails ?down (GetItem ''scanHistory'')"
    and off: "fails ?off GetDocs" "read_throws ?off ''scanHistory'' world_remote"
    by (simp_all add: env_failing_def read_throws_def)
  have backup: "storage world_backup ''scanHistory'' = Some (JSON_stringify [scan_recent])"
    by (simp add: world_backup_def JSON_stringify_def)
  have none: "\<not> truthy (storage world_remote ''scanHistory'')"
    and shown: "alerts world_remote = []" "console world_remote = []"
    by (simp_all add: world_remote_def)
  from load_never_throws_and_falls_back [of ?down "Some user_remote" world_backup "[scan_recent]"]
    u down backup
  have 1: "returned (fetchScanHistory ?down (Some user_remote) world_backup)"
    "scans (final (fetchScanHistory ?down (Some user_remote) world_backup)) = [scan_recent]"
    by blast+
  from load_never_throws_and_falls_back [of ?down "Some user_remote" world_remote "[]"]
    u down none
  have 2: "scans (final (fetchScanHistory ?down (Some user_remote) world_remote))
             = scans world_remote"
    "console (final (fetchScanHistory ?down (Some user_remote) world_remote))
             = console world_remote @ [''Error fetching scan history:'']"
    by blast+
  from load_never_throws_and_falls_back [of ?off "Some user_remote" world_remote "[]"]
    u off
  have "alerts (final (fetchScanHistory ?off (Some user_remote) world_remote))
          = alerts world_remote @ [(''Error'', ''Failed to load scan history'')]"
    by blast
  with shown 1 2 show ?thesis by simp
qed

text \<open>
  C6 as stated fails. With the remote store down and no backup snapshot, the load shows
  no alert; and with the remote store down and the backup unreadable, a list that was on
  screen stays on screen instead of becoming empty.
\<close>

theorem load_fallback_counterexample:
  "fails (env_failing [GetDocs]) GetDocs
   \<and> storage world_fresh ''scanHistory'' = None
   \<and> alerts (final (fetchScanHistory (env_failing [GetDocs]) (Some user_remote) world_fresh))
       = []
   \<and> fails (env_failing [GetDocs, GetItem ''scanHistory'']) (GetItem ''scanHistory'')
   \<and> scans (final (fetchScanHistory (env_failing [GetDocs, GetItem ''scanHistory''])
        (Some user_remote) world_remote)) \<noteq> []"
  by (simp add: fetchScanHistory_def io_defs env_failing_def user_remote_def world_fresh_def
        world_remote_def)

text \<open>
  C5 (amended). \<^verbatim>\<open>deleteScan\<close> never throws. For a user who is not the demo user it
  deletes the document with the record's id from the remote store; otherwise it writes
  the list on screen without the record as the demo snapshot, after which a load that
  can read the cache does not bring the record back. In both cases it then removes the
  record from the list on screen and shows the Success alert. When the store operation
  is rejected, it shows the alert \<^verbatim>\<open>Failed to delete scan\<close> and leaves the list on screen,
  the cache and the remote store as they were. It returns no value, whether it succeeds
  or fails: the outcome is shown by the alert only.
\<close>

theorem deleteScan_effects:
  "returned_value (deleteScan e usr scan w) = Some Undefined
   \<and> (is_remote_user usr \<and> \<not> fails e DeleteDoc \<longrightarrow>
        remote (final (deleteScan e usr scan w))
          = filter (\<lambda>d. doc_id d \<noteq> id_scan scan) (remote w)
        \<and> storage (final (deleteScan e usr scan w)) = storage w
        \<and> scans (final (deleteScan e usr scan w))
            = filter (\<lambda>s. id_scan s \<noteq> id_scan scan) (scans w)
        \<and> alerts (final (deleteScan e usr scan w))
            = alerts w @ [(''Success'', ''Scan deleted successfully'')])
   \<and> (\<not> is_remote_user usr \<and> \<not> fails e (SetItem ''demoScans'') \<longrightarrow>
        storage (final (deleteScan e usr scan w))
          = (storage w)(''demoScans'' \<mapsto>
               JSON_stringify (filter (\<lambda>s. id_scan s \<noteq> id_scan scan) (scans w)))
        \<and> remote (final (deleteScan e usr scan w)) = remote w
        \<and> scans (final (deleteScan e usr scan w))
            = filter (\<lambda>s. id_scan s \<noteq> id_scan scan) (scans w)
        \<and> alerts (final (deleteScan e usr scan w))
            = alerts w @ [(''Success'', ''Scan deleted successfully'')]
        \<and> (\<not> fails e' (GetItem ''demoScans'') \<longrightarrow>
             scans (final (fetchScanHistory e' usr (final (deleteScan e usr scan w))))
               = filter (\<lambda>s. id_scan s \<noteq> id_scan scan) (scans w)))
   \<and> (delete_store_fails e usr \<longrightarrow>
        scans (final (deleteScan e usr scan w)) = scans w
        \<and> storage (final (deleteScan e usr scan w)) = storage w
        \<and> remote (final (deleteScan e usr scan w)) = remote w
        \<and> alerts (final (deleteScan e usr scan w))
            = alerts w @ [(''Error'', ''Failed to delete scan'')])"
proof -
  let ?rest = "filter (\<lambda>s. id_scan s \<noteq> id_scan scan) (scans w)"
  have ret: "returned_value (deleteScan e usr scan w) = Some Undefined"
    by (simp add: deleteScan_def io_defs)
  have rem: "deleteScan e usr scan w =
               Returns Undefined (w\<lparr>remote := filter (\<lambda>d. doc_id d \<noteq> id_scan scan) (remote w),
                 scans := ?rest,
                 alerts := alerts w @ [(''Success'', ''Scan deleted successfully'')]\<rparr>)"
    if "is_remote_user usr" "\<not> fails e DeleteDoc"
    using that by (simp add: deleteScan_def io_defs)
  have loc: "deleteScan e usr scan w =
               Returns Undefined (w\<lparr>storage := (storage w)(''demoScans'' \<mapsto> Records ?rest),
                 scans := ?rest,
                 alerts := alerts w @ [(''Success'', ''Scan deleted successfully'')]\<rparr>)"
    if "\<not> is_remote_user usr" "\<not> fails e (SetItem ''demoScans'')"
    using that by (simp add: deleteScan_def io_defs)
  have again: "scans (final (fetchScanHistory e' usr (final (deleteScan e usr scan w)))) = ?rest"
    if "\<not> is_remote_user usr" "\<not> fails e (SetItem ''demoScans'')"
      "\<not> fails e' (GetItem ''demoScans'')"
  proof -
    from that(1) have demo: "is_demo usr" by (simp add: is_remote_user_iff)
    have "storage (final (deleteScan e usr scan w)) ''demoScans'' = Some (Records ?rest)"
      using loc [OF that(1,2)] by simp
    from load_demo_stored [OF demo that(3) this] show ?thesis by simp
  qed
  have fail: "deleteScan e usr scan w =
               Returns Undefined (w\<lparr>console := console w @ [''Error deleting scan:''],
                 alerts := alerts w @ [(''Error'', ''Failed to delete scan'')]\<rparr>)"
    if "delete_store_fails e usr"
    using that by (simp add: deleteScan_def io_defs delete_store_fails_def split: if_splits)
  show ?thesis
    using ret rem loc again fail by (simp add: JSON_stringify_def)
qed

theorem deleteScan_effects_witness:
  "remote (final (deleteScan env_ok (Some user_remote) (scan_of_doc env_ok doc_example)
      world_remote)) = []
   \<and> scans (final (deleteScan env_ok (Some user_remote) (scan_of_doc env_ok doc_example)
      world_remote)) = []
   \<and> storage (final (deleteScan env_ok (Some user_demo) (hd (demoScans_default env_ok))
      world_demo)) ''demoScans'' = Some (Records (tl (demoScans_default env_ok)))
   \<and> scans (final (fetchScanHistory env_later (Some user_demo)
        (final (deleteScan env_ok (Some user_demo) (hd (demoScans_default env_ok))
           world_demo)))) = tl (demoScans_default env_ok)
   \<and> scans (final (deleteScan (env_failing [DeleteDoc]) (Some user_remote)
        (scan_of_doc env_ok doc_example) world_remote)) = scans world_remote
   \<and> alerts (final (deleteScan (env_failing [DeleteDoc]) (Some user_remote)
        (scan_of_doc env_ok doc_example) world_remote))
       = [(''Error'', ''Failed to delete scan'')]
   \<and> returned_value (deleteScan (env_failing [DeleteDoc]) (Some user_remote)
        (scan_of_doc env_ok doc_example) world_remote) = Some Undefined"
proof -
  let ?r = "scan_of_doc env_ok doc_example"
  let ?d = "hd (demoScans_default env_ok)"
  have users: "is_remote_user (Some user_remote)" "\<not> is_remote_user (Some user_demo)"
    by (simp_all add: is_remote_user_def user_remote_def user_demo_def)
  have ok: "\<not> fails env_ok DeleteDoc" "\<not> fails env_ok (SetItem ''demoScans'')"
    "\<not> fails env_later (GetItem ''demoScans'')"
    by (simp_all add: env_ok_def env_later_def)
  have bad: "delete_store_fails (env_failing [DeleteDoc]) (Some user_remote)"
    using users(1) by (simp add: delete_store_fails_def env_failing_def)
  have vals: "filter (\<lambda>d. doc_id d \<noteq> id_scan ?r) (remote world_remote) = []"
    "filter (\<lambda>s. id_scan s \<noteq> id_scan ?r) (scans world_remote) = []"
    "filter (\<lambda>s. id_scan s \<noteq> id_scan ?d) (scans world_demo) = tl (demoScans_default env_ok)"
    "alerts world_remote = []"
    by (simp_all add: world_remote_def world_demo_def scan_of_doc_def doc_example_def
          demoScans_default_def)
  from deleteScan_effects [of env_ok "Some user_remote" ?r world_remote env_later] users(1) ok(1)
  have 1: "remote (final (deleteScan env_ok (Some user_remote) ?r world_remote))
             = filter (\<lambda>d. doc_id d \<noteq> id_scan ?r) (remote world_remote)"
    "scans (final (deleteScan env_ok (Some user_remote) ?r world_remote))
             = filter (\<lambda>s. id_scan s \<noteq> id_scan ?r) (scans world_remote)"
    by blast+
  from deleteScan_effects [of env_ok "Some user_demo" ?d world_demo env_later] users(2) ok(2,3)
  have 2: "storage (final (deleteScan env_ok (Some user_demo) ?d world_demo))
             = (storage world_demo)(''demoScans'' \<mapsto>
                 JSON_stringify (filter (\<lambda>s. id_scan s \<noteq> id_scan ?d) (scans world_demo)))"
    "scans (final (fetchScanHistory env_later (Some user_demo)
        (final (deleteScan env_ok (Some user_demo) ?d world_demo))))
             = filter (\<lambda>s. id_scan s \<noteq> id_scan ?d) (scans world_demo)"
    by blast+
  from deleteScan_effects
         [of "env_failing [DeleteDoc]" "Some user_remote" ?r world_remote env_later] bad
  have 3: "scans (final (deleteScan (env_failing [DeleteDoc]) (Some user_remote) ?r
             world_remote)) = scans world_remote"
    "alerts (final (deleteScan (env_failing [DeleteDoc]) (Some user_remote) ?r world_remote))
       = alerts world_remote @ [(''Error'', ''Failed to delete scan'')]"
    "returned_value (deleteScan (env_failing [DeleteDoc]) (Some user_remote) ?r world_remote)
       = Some Undefined"
    by blast+
  from 1 2 3 show ?thesis
    by (simp only: vals JSON_stringify_def) simp
qed

text \<open>
  C5 as stated fails: when the store operation is rejected, \<^verbatim>\<open>deleteScan\<close> does not return
  \<^verbatim>\<open>false\<close>. It returns \<^verbatim>\<open>undefined\<close>, as it does when the deletion succeeds.
\<close>

theorem deleteScan_return_counterexample:
  "delete_store_fails (env_failing [DeleteDoc]) (Some user_remote)
   \<and> returned_value (deleteScan (env_failing [DeleteDoc]) (Some user_remote)
         (scan_of_doc env_ok doc_example) world_remote) \<noteq> Some (Boolean False)
   \<and> returned_value (deleteScan (env_failing [DeleteDoc]) (Some user_remote)
         (scan_of_doc env_ok doc_example) world_remote)
       = returned_value (deleteScan env_ok (Some user_remote)
           (scan_of_doc env_ok doc_example) world_remote)"
  by (simp add: deleteScan_def io_defs delete_store_fails_def is_remote_user_def
        user_remote_def env_failing_def env_ok_def)

text \<open>
  C8. Confirming \<^verbatim>\<open>clearAllScans\<close> removes the demo snapshot from the cache and empties the
  list on screen, whoever the user is, whenever the cache accepts the removal; when the
  cache rejects it, the failure is reported and the list and the cache stay as they
  were. In no case, and for no user, is a document of the remote store deleted.
\<close>

theorem clearAllScans_effects:
  "returned (clearAllScans e usr pressed w)
   \<and> remote (final (clearAllScans e usr pressed w)) = remote w
   \<and> (\<not> fails e (RemoveItem ''demoScans'') \<longrightarrow>
        storage (final (clearAllScans e usr ClearAll w)) = (storage w)(''demoScans'' := None)
        \<and> scans (final (clearAllScans e usr ClearAll w)) = []
        \<and> alerts (final (clearAllScans e usr ClearAll w))
            = alerts w @ [(''Success'', ''All scans cleared'')])
   \<and> (fails e (RemoveItem ''demoScans'') \<longrightarrow>
        storage (final (clearAllScans e usr ClearAll w)) = storage w
        \<and> scans (final (clearAllScans e usr ClearAll w)) = scans w
        \<and> alerts (final (clearAllScans e usr ClearAll w))
            = alerts w @ [(''Error'', ''Failed to clear scans'')])"
  by (cases pressed) (simp_all add: clearAllScans_def io_defs)

theorem clearAllScans_effects_witness:
  "is_remote_user (Some user_remote)
   \<and> storage world_remote ''demoScans'' \<noteq> None
   \<and> storage (final (clearAllScans env_ok (Some user_remote) ClearAll world_remote))
       ''demoScans'' = None
   \<and> scans (final (clearAllScans env_ok (Some user_remote) ClearAll world_remote)) = []
   \<and> remote (final (clearAllScans env_ok (Some user_remote) ClearAll world_remote))
       = [doc_example]
   \<and> scans (final (clearAllScans (env_failing [RemoveItem ''demoScans'']) (Some user_remote)
        ClearAll world_remote)) = scans world_remote"
proof -
  have ok: "\<not> fails env_ok (RemoveItem ''demoScans'')"
    and bad: "fails (env_failing [RemoveItem ''demoScans'']) (RemoveItem ''demoScans'')"
    by (simp_all add: env_ok_def env_failing_def)
  have vals: "is_remote_user (Some user_remote)" "storage world_remote ''demoScans'' \<noteq> None"
    "remote world_remote = [doc_example]"
    by (simp_all add: is_remote_user_def user_remote_def world_remote_def)
  from clearAllScans_effects [of env_ok "Some user_remote" ClearAll world_remote] ok
  have 1: "storage (final (clearAllScans env_ok (Some user_remote) ClearAll world_remote))
             = (storage world_remote)(''demoScans'' := None)"
    "scans (final (clearAllScans env_ok (Some user_remote) ClearAll world_remote)) = []"
    "remote (final (clearAllScans env_ok (Some user_remote) ClearAll world_remote))
       = remote world_remote"
    by blast+
  from clearAllScans_effects
         [of "env_failing [RemoveItem ''demoScans'']" "Some user_remote" ClearAll world_remote] bad
  have 2: "scans (final (clearAllScans (env_failing [RemoveItem ''demoScans''])
             (Some user_remote) ClearAll world_remote)) = scans world_remote"
    by blast
  from 1 2 vals show ?thesis by simp
qed

end
